theory Spec2Isabelle
  imports Main
begin

text \<open>
  A shallow embedding of the text-to-text core of beamer-cli: the structural linter
  (\<open>lint.ts\<close>: all five rule groups, the choice of the file and the exit of the
  command), the Markdown converter (\<open>mermaidToTikz\<close>, \<open>parseMarkdown\<close>,
  \<open>formatInlineMarkdown\<close>, \<open>handleEmojis\<close>, \<open>escapeLatex\<close>) and the slide extraction of
  the HTML exporter (\<open>parseLatex\<close>, \<open>latexToHtml\<close>).  Regular expressions are written
  out as the matchers they denote, backtracking included.  The file system is the record
  of what the linter asks of it; colouring and the calls of external programs are
  outside the embedding.
\<close>

section \<open>Text primitives\<close>

text \<open>
  A JavaScript string is modelled as the list of its Unicode code points (well-formed
  strings: no lone surrogates).  All patterns of the program are ASCII, or are matched
  with the \<open>u\<close> flag, so matching on code points and on UTF-16 units agree.
  \<open>str\<close> embeds an ASCII literal; a backslash cannot be written inside an Isabelle
  string literal, so \<open>bsl s\<close> is the literal \<open>s\<close> with a backslash (code 92) in front.
\<close>

type_synonym jstring = "nat list"

abbreviation (input) str :: "string \<Rightarrow> jstring" where
  "str s \<equiv> map of_char s"

abbreviation (input) bsl :: "string \<Rightarrow> jstring" where
  "bsl s \<equiv> 92 # map of_char s"

text \<open>The character classes of JavaScript regular expressions: \<open>\s\<close>, \<open>\w\<close>,
  \<open>[a-zA-Z]\<close>, and the line terminators that \<open>.\<close> does not match.\<close>

definition isSpace :: "nat \<Rightarrow> bool" where
  "isSpace c \<longleftrightarrow>
     c = 9 \<or> c = 10 \<or> c = 11 \<or> c = 12 \<or> c = 13 \<or> c = 32 \<or> c = 160 \<or> c = 5760 \<or>
     (8192 \<le> c \<and> c \<le> 8202) \<or> c = 8232 \<or> c = 8233 \<or> c = 8239 \<or> c = 8287 \<or>
     c = 12288 \<or> c = 65279"

definition isLineTerminator :: "nat \<Rightarrow> bool" where
  "isLineTerminator c \<longleftrightarrow> c = 10 \<or> c = 13 \<or> c = 8232 \<or> c = 8233"

definition isLetter :: "nat \<Rightarrow> bool" where
  "isLetter c \<longleftrightarrow> (65 \<le> c \<and> c \<le> 90) \<or> (97 \<le> c \<and> c \<le> 122)"

definition isWord :: "nat \<Rightarrow> bool" where
  "isWord c \<longleftrightarrow> isLetter c \<or> (48 \<le> c \<and> c \<le> 57) \<or> c = 95"

text \<open>\<open>s.startsWith(p)\<close>, \<open>s.includes(p)\<close>, \<open>s.indexOf(p)\<close> (\<open>None\<close> for -1),
  \<open>s.split('\n')\<close>, \<open>s.trim()\<close>, \<open>xs.join(sep)\<close>.\<close>

definition startsWith :: "jstring \<Rightarrow> jstring \<Rightarrow> bool" where
  "startsWith s p \<longleftrightarrow> take (length p) s = p"

fun includesStr :: "jstring \<Rightarrow> jstring \<Rightarrow> bool" where
  "includesStr [] p = (p = [])"
| "includesStr (c # cs) p = (startsWith (c # cs) p \<or> includesStr cs p)"

fun indexOf :: "jstring \<Rightarrow> jstring \<Rightarrow> nat option" where
  "indexOf [] p = (if p = [] then Some 0 else None)"
| "indexOf (c # cs) p =
     (if startsWith (c # cs) p then Some 0
      else (case indexOf cs p of None \<Rightarrow> None | Some i \<Rightarrow> Some (Suc i)))"

fun splitOn :: "nat \<Rightarrow> jstring \<Rightarrow> jstring \<Rightarrow> jstring list" where
  "splitOn sep piece [] = [piece]"
| "splitOn sep piece (c # cs) =
     (if c = sep then piece # splitOn sep [] cs else splitOn sep (piece @ [c]) cs)"

definition splitLines :: "jstring \<Rightarrow> jstring list" where
  "splitLines s = splitOn 10 [] s"

definition trim :: "jstring \<Rightarrow> jstring" where
  "trim s = rev (dropWhile isSpace (rev (dropWhile isSpace s)))"

text \<open>The decimal rendering of a non-negative integer inside a template string.\<close>

fun showNat :: "nat \<Rightarrow> jstring" where
  "showNat n = (if n < 10 then [48 + n] else showNat (n div 10) @ [48 + n mod 10])"

declare showNat.simps [simp del]

text \<open>
  Iteration of a global regular expression (\<open>replace\<close> with the \<open>g\<close> flag, \<open>match\<close>
  with the \<open>g\<close> flag, an \<open>exec\<close> loop).  The first argument matches the expression at
  the head of the remaining text and returns its result and the number of characters it
  consumed; after a match the scan resumes behind it (\<open>skip\<close> counts the characters
  still to jump over), otherwise one character further.
\<close>

fun globalReplace :: "(jstring \<Rightarrow> (jstring \<times> nat) option) \<Rightarrow> nat \<Rightarrow> jstring \<Rightarrow> jstring" where
  "globalReplace m skip [] = []"
| "globalReplace m skip (c # cs) =
     (if 0 < skip then globalReplace m (skip - 1) cs
      else (case m (c # cs) of
              Some (r, n) \<Rightarrow> r @ globalReplace m (n - 1) cs
            | None \<Rightarrow> c # globalReplace m 0 cs))"

fun globalMatches :: "(jstring \<Rightarrow> ('a \<times> nat) option) \<Rightarrow> nat \<Rightarrow> nat \<Rightarrow> jstring \<Rightarrow> (nat \<times> 'a \<times> nat) list" where
  "globalMatches m pos skip [] = []"
| "globalMatches m pos skip (c # cs) =
     (if 0 < skip then globalMatches m (Suc pos) (skip - 1) cs
      else (case m (c # cs) of
              Some (a, n) \<Rightarrow> (pos, a, n) # globalMatches m (Suc pos) (n - 1) cs
            | None \<Rightarrow> globalMatches m (Suc pos) 0 cs))"

text \<open>A match without the \<open>g\<close> flag: the leftmost position where the expression matches.\<close>

fun firstMatch :: "(jstring \<Rightarrow> 'a option) \<Rightarrow> jstring \<Rightarrow> 'a option" where
  "firstMatch m [] = m []"
| "firstMatch m (c # cs) = (case m (c # cs) of Some a \<Rightarrow> Some a | None \<Rightarrow> firstMatch m cs)"

text \<open>A literal pattern as a matcher, replaced by \<open>r\<close>.\<close>

definition literal :: "jstring \<Rightarrow> jstring \<Rightarrow> jstring \<Rightarrow> (jstring \<times> nat) option" where
  "literal p r s = (if startsWith s p then Some (r, length p) else None)"

definition replaceAll :: "jstring \<Rightarrow> jstring \<Rightarrow> jstring \<Rightarrow> jstring" where
  "replaceAll p r s = globalReplace (literal p r) 0 s"


section \<open>The structural linter (lint.ts)\<close>

datatype severity = Error | Warning

record LintIssue =
  line :: nat
  severity :: severity
  message :: jstring
  rule :: jstring

subsection \<open>Presence checks\<close>

definition missingDocumentClass :: "jstring \<Rightarrow> LintIssue option" where
  "missingDocumentClass content =
     (if \<not> includesStr content (bsl ''documentclass'')
      then Some \<lparr>line = 1, severity = Error,
                 message = str ''Missing '' @ bsl ''documentclass'', rule = str ''document-class''\<rparr>
      else None)"

definition missingBeginDocument :: "jstring \<Rightarrow> LintIssue option" where
  "missingBeginDocument content =
     (if \<not> includesStr content (bsl ''begin{document}'')
      then Some \<lparr>line = 1, severity = Error,
                 message = str ''Missing '' @ bsl ''begin{document}'', rule = str ''begin-document''\<rparr>
      else None)"

definition missingEndDocument :: "jstring \<Rightarrow> LintIssue option" where
  "missingEndDocument content =
     (if \<not> includesStr content (bsl ''end{document}'')
      then Some \<lparr>line = 1, severity = Error,
                 message = str ''Missing '' @ bsl ''end{document}'', rule = str ''end-document''\<rparr>
      else None)"

subsection \<open>Brace balance\<close>

definition unmatchedClosing :: "nat \<Rightarrow> LintIssue" where
  "unmatchedClosing n =
     \<lparr>line = n, severity = Error, message = str ''Unmatched closing brace }'',
      rule = str ''brace-balance''\<rparr>"

definition unclosedBraces :: "int \<Rightarrow> nat \<Rightarrow> LintIssue" where
  "unclosedBraces braceCount n =
     \<lparr>line = n, severity = Error,
      message = showNat (nat braceCount) @ str '' unclosed brace(s) {'',
      rule = str ''brace-balance''\<rparr>"

text \<open>The part of a line before its first percent sign (code 37).\<close>

definition activePart :: "jstring \<Rightarrow> jstring" where
  "activePart ln = (case indexOf ln [37] of Some commentIdx \<Rightarrow> take commentIdx ln | None \<Rightarrow> ln)"

text \<open>The inner loop over the characters of one line; the state is the counter and the
  issues pushed so far.  123 and 125 are the two braces.\<close>

fun scanChars :: "nat \<Rightarrow> jstring \<Rightarrow> int \<times> LintIssue list \<Rightarrow> int \<times> LintIssue list" where
  "scanChars idx [] st = st"
| "scanChars idx (ch # cs) (braceCount, issues) =
     (let c1 = (if ch = 123 then braceCount + 1 else braceCount);
          c2 = (if ch = 125 then c1 - 1 else c1)
      in if c2 < 0 then scanChars idx cs (0, issues @ [unmatchedClosing (idx + 1)])
         else scanChars idx cs (c2, issues))"

fun scanLines :: "nat \<Rightarrow> jstring list \<Rightarrow> int \<times> LintIssue list \<Rightarrow> int \<times> LintIssue list" where
  "scanLines idx [] st = st"
| "scanLines idx (ln # lns) st = scanLines (Suc idx) lns (scanChars idx (activePart ln) st)"

definition unmatchedBraces :: "jstring \<Rightarrow> jstring list \<Rightarrow> LintIssue list" where
  "unmatchedBraces content lines =
     (case scanLines 0 lines (0, []) of
        (braceCount, issues) \<Rightarrow>
          if 0 < braceCount then issues @ [unclosedBraces braceCount (length lines)]
          else issues)"

subsection \<open>Environment balance\<close>

text \<open>One match of \<open>\\kw\{(\w+)\}\<close> at the head of the text, where \<open>kw\<close> is the
  text up to and including the opening brace; the result is the captured name.\<close>

definition envMarker :: "jstring \<Rightarrow> jstring \<Rightarrow> (jstring \<times> nat) option" where
  "envMarker kw s =
     (if startsWith s kw then
        (let r = drop (length kw) s; name = takeWhile isWord r
         in if name \<noteq> [] \<and> startsWith (drop (length name) r) [125]
            then Some (name, length kw + length name + 1) else None)
      else None)"

definition envNames :: "jstring \<Rightarrow> jstring \<Rightarrow> jstring list" where
  "envNames kw ln = map (\<lambda>(p, name, n). name) (globalMatches (envMarker kw) 0 0 ln)"

definition withoutBegin :: "jstring \<Rightarrow> nat \<Rightarrow> LintIssue" where
  "withoutBegin name n =
     \<lparr>line = n, severity = Error,
      message = bsl ''end{'' @ name @ str ''} without matching '' @ bsl ''begin'',
      rule = str ''env-balance''\<rparr>"

definition mismatched :: "jstring \<Rightarrow> jstring \<times> nat \<Rightarrow> nat \<Rightarrow> LintIssue" where
  "mismatched name topEnv n =
     \<lparr>line = n, severity = Error,
      message = bsl ''end{'' @ name @ [125, 32, 100, 111, 101, 115, 110, 39, 116] @ str '' match ''
                @ bsl ''begin{'' @ fst topEnv @ str ''} from line '' @ showNat (snd topEnv),
      rule = str ''env-balance''\<rparr>"

definition neverClosed :: "jstring \<times> nat \<Rightarrow> LintIssue" where
  "neverClosed e =
     \<lparr>line = snd e, severity = Error,
      message = bsl ''begin{'' @ fst e @ str ''} never closed'', rule = str ''env-balance''\<rparr>"

text \<open>The stack holds (name, line) pairs, its top at the end of the list.\<close>

fun popEnds :: "nat \<Rightarrow> jstring list \<Rightarrow> (jstring \<times> nat) list \<times> LintIssue list
    \<Rightarrow> (jstring \<times> nat) list \<times> LintIssue list" where
  "popEnds idx [] st = st"
| "popEnds idx (name # names) (stack, issues) =
     (if stack = [] then popEnds idx names (stack, issues @ [withoutBegin name (idx + 1)])
      else (let topEnv = last stack
            in if fst topEnv \<noteq> name
               then popEnds idx names (butlast stack, issues @ [mismatched name topEnv (idx + 1)])
               else popEnds idx names (butlast stack, issues)))"

fun envLines :: "nat \<Rightarrow> jstring list \<Rightarrow> (jstring \<times> nat) list \<times> LintIssue list
    \<Rightarrow> (jstring \<times> nat) list \<times> LintIssue list" where
  "envLines idx [] st = st"
| "envLines idx (ln # lns) (stack, issues) =
     envLines (Suc idx) lns
       (popEnds idx (envNames (bsl ''end{'') ln)
          (stack @ map (\<lambda>name. (name, idx + 1)) (envNames (bsl ''begin{'') ln), issues))"

definition unmatchedEnvironments :: "jstring \<Rightarrow> jstring list \<Rightarrow> LintIssue list" where
  "unmatchedEnvironments content lines =
     (case envLines 0 lines ([], []) of (stack, issues) \<Rightarrow> issues @ map neverClosed stack)"

subsection \<open>Frame without title\<close>

definition frameTitleIssue :: "nat \<Rightarrow> LintIssue" where
  "frameTitleIssue n =
     \<lparr>line = n, severity = Warning, message = str ''Frame without title'',
      rule = str ''frame-title''\<rparr>"

text \<open>\<open>lines[idx + 1]?.includes(p)\<close>: undefined, hence falsy, behind the last line.\<close>

definition nextIncludes :: "jstring list \<Rightarrow> nat \<Rightarrow> jstring \<Rightarrow> bool" where
  "nextIncludes lines idx p \<longleftrightarrow> idx + 1 < length lines \<and> includesStr (lines ! (idx + 1)) p"

fun frameLines :: "jstring list \<Rightarrow> nat \<Rightarrow> jstring list \<Rightarrow> LintIssue list" where
  "frameLines lines idx [] = []"
| "frameLines lines idx (ln # lns) =
     (if includesStr ln (bsl ''begin{frame}'') \<and> \<not> includesStr ln [123]
         \<and> \<not> nextIncludes lines idx (bsl ''frametitle'')
         \<and> \<not> nextIncludes lines idx (bsl ''titlepage'')
      then (if \<not> includesStr ln (str ''[fragile]'') \<and> \<not> includesStr ln (str ''[plain]'')
               \<and> \<not> includesStr ln (str ''[standout]'')
            then frameTitleIssue (idx + 1) # frameLines lines (Suc idx) lns
            else frameLines lines (Suc idx) lns)
      else frameLines lines (Suc idx) lns)"

definition frameWithoutTitle :: "jstring \<Rightarrow> jstring list \<Rightarrow> LintIssue list" where
  "frameWithoutTitle content lines = frameLines lines 0 lines"

subsection \<open>Unescaped underscore\<close>

text \<open>The four expressions stripped from a line: \<open>\$[^$]+\$\<close>, \<open>\\texttt\{[^}]+\}\<close>,
  \<open>\\_\<close> and \<open>\\[a-zA-Z]+\<close>.\<close>

definition delimited :: "jstring \<Rightarrow> nat \<Rightarrow> jstring \<Rightarrow> (jstring \<times> nat) option" where
  "delimited opening closing s =
     (if startsWith s opening then
        (let r = drop (length opening) s; body = takeWhile (\<lambda>c. c \<noteq> closing) r
         in if body \<noteq> [] \<and> startsWith (drop (length body) r) [closing]
            then Some (body, length opening + length body + 1) else None)
      else None)"

definition dropped :: "(jstring \<times> nat) option \<Rightarrow> (jstring \<times> nat) option" where
  "dropped r = (case r of Some (b, n) \<Rightarrow> Some ([], n) | None \<Rightarrow> None)"

definition command :: "jstring \<Rightarrow> (jstring \<times> nat) option" where
  "command s =
     (case s of
        [] \<Rightarrow> None
      | c # r \<Rightarrow> (let name = takeWhile isLetter r
                  in if c = 92 \<and> name \<noteq> [] then Some ([], 1 + length name) else None))"

definition stripped :: "jstring \<Rightarrow> jstring" where
  "stripped ln =
     globalReplace command 0
       (replaceAll (bsl ''_'') []
          (globalReplace (\<lambda>s. dropped (delimited (bsl ''texttt{'') 125 s)) 0
             (globalReplace (\<lambda>s. dropped (delimited [36] 36 s)) 0 ln)))"

definition underscoreIssue :: "nat \<Rightarrow> LintIssue" where
  "underscoreIssue n =
     \<lparr>line = n, severity = Warning,
      message = str ''Unescaped underscore (use '' @ bsl ''_ or $var_x$)'',
      rule = str ''underscore''\<rparr>"

fun underscoreLines :: "nat \<Rightarrow> jstring list \<Rightarrow> bool \<Rightarrow> LintIssue list" where
  "underscoreLines idx [] inLstlisting = []"
| "underscoreLines idx (ln # lns) inLstlisting =
     (let l1 = (if includesStr ln (bsl ''begin{lstlisting}'') \<or> includesStr ln (bsl ''begin{verbatim}'')
                then True else inLstlisting);
          l2 = (if includesStr ln (bsl ''end{lstlisting}'') \<or> includesStr ln (bsl ''end{verbatim}'')
                then False else l1)
      in if l2 then underscoreLines (Suc idx) lns l2
         else if includesStr (stripped ln) [95]
              then underscoreIssue (idx + 1) # underscoreLines (Suc idx) lns l2
              else underscoreLines (Suc idx) lns l2)"

definition underscoreInText :: "jstring \<Rightarrow> jstring list \<Rightarrow> LintIssue list" where
  "underscoreInText content lines = underscoreLines 0 lines False"

subsection \<open>The command\<close>

text \<open>
  What \<open>lint\<close> sees of the file system: \<open>existsSync\<close>, the entries of the working
  directory (\<open>readdirSync('.')\<close>), the base name of the working directory, and
  \<open>readFileSync\<close>, which is \<open>None\<close> where the call throws.
\<close>

record FileSystem =
  existsSync :: "jstring \<Rightarrow> bool"
  readdirSync :: "jstring list"
  cwdBase :: jstring
  readFileSync :: "jstring \<Rightarrow> jstring option"

definition endsWith :: "jstring \<Rightarrow> jstring \<Rightarrow> bool" where
  "endsWith s p \<longleftrightarrow> startsWith (rev s) (rev p)"

text \<open>
  \<open>findTexFile\<close>: \<open>Inl\<close> carries the line written to the error stream before
  \<open>process.exit(1)\<close>, \<open>Inr\<close> the file chosen.  An empty file argument is falsy and
  counts as no argument; 39 is the single quote.
\<close>

definition findTexFile :: "FileSystem \<Rightarrow> jstring option \<Rightarrow> jstring + jstring" where
  "findTexFile fs file =
     (if (case file of Some f \<Rightarrow> f \<noteq> [] | None \<Rightarrow> False) then
        (if \<not> existsSync fs (the file)
         then Inl (str ''Error: File '' @ [39] @ the file @ [39] @ str '' not found'')
         else Inr (the file))
      else
        (let texFiles = filter (\<lambda>f. endsWith f (str ''.tex'')) (readdirSync fs)
         in if length texFiles = 0 then Inl (str ''Error: No .tex files found'')
            else if length texFiles = 1 then Inr (hd texFiles)
            else (case find (\<lambda>f. f = cwdBase fs @ str ''.tex'' \<or> f = str ''main.tex'') texFiles of
                    Some f \<Rightarrow> Inr f
                  | None \<Rightarrow> Inr (hd texFiles))))"

text \<open>
  The issues of all rules, sorted by line (a stable sort), and the run of the command:
  the lines written to the console (colouring left out), the issues produced, and how
  the run ends: it returns, it calls \<open>process.exit\<close>, or the read throws.
\<close>

definition optional :: "'a option \<Rightarrow> 'a list" where
  "optional x = (case x of Some a \<Rightarrow> [a] | None \<Rightarrow> [])"

definition lintIssues :: "jstring \<Rightarrow> LintIssue list" where
  "lintIssues content =
     (let lines = splitLines content
      in sort_key line
           (optional (missingDocumentClass content) @ optional (missingBeginDocument content)
            @ optional (missingEndDocument content)
            @ unmatchedBraces content lines @ unmatchedEnvironments content lines
            @ frameWithoutTitle content lines @ underscoreInText content lines))"

definition reportLine :: "jstring \<Rightarrow> LintIssue \<Rightarrow> jstring" where
  "reportLine texFile issue =
     str ''  '' @ (if severity issue = Error then [10007] else [9888]) @ str '' ''
     @ texFile @ str '':'' @ showNat (line issue) @ str '' '' @ message issue
     @ str '' ('' @ rule issue @ str '')''"

datatype ending = Returns | Exits nat | Throws

record LintRun =
  printed :: "jstring list"
  produced :: "LintIssue list"
  ending :: ending

definition lint :: "FileSystem \<Rightarrow> jstring option \<Rightarrow> LintRun" where
  "lint fs file =
     (case findTexFile fs file of
        Inl failure \<Rightarrow> \<lparr>printed = [failure], produced = [], ending = Exits 1\<rparr>
      | Inr texFile \<Rightarrow>
          (case readFileSync fs texFile of
             None \<Rightarrow>
               \<lparr>printed = [str ''Linting '' @ texFile @ str ''...'', []], produced = [],
                ending = Throws\<rparr>
           | Some content \<Rightarrow>
               (let issues = lintIssues content;
                    errors = filter (\<lambda>i. severity i = Error) issues;
                    warnings = filter (\<lambda>i. severity i = Warning) issues
                in \<lparr>printed =
                      [str ''Linting '' @ texFile @ str ''...'', []]
                      @ map (reportLine texFile) issues
                      @ (if length issues = 0
                         then [str ''  '' @ [10003] @ str '' No issues found''] else [])
                      @ [[], str ''  '' @ showNat (length errors) @ str '' error(s), ''
                             @ showNat (length warnings) @ str '' warning(s)''],
                    produced = issues,
                    ending = (if 0 < length errors then Exits 1 else Returns)\<rparr>)))"


section \<open>The Markdown converter (from-md)\<close>

subsection \<open>Diagram translator\<close>

text \<open>A JavaScript \<open>Map\<close> keeps its keys in insertion order, and \<open>set\<close> on a key that
  is present replaces the value in place: an association list.\<close>

fun mapSet :: "jstring \<Rightarrow> jstring \<Rightarrow> (jstring \<times> jstring) list \<Rightarrow> (jstring \<times> jstring) list" where
  "mapSet k v [] = [(k, v)]"
| "mapSet k v ((k', v') # m) = (if k' = k then (k, v) # m else (k', v') # mapSet k v m)"

definition mapHas :: "(jstring \<times> jstring) list \<Rightarrow> jstring \<Rightarrow> bool" where
  "mapHas m k \<longleftrightarrow> k \<in> set (map fst m)"

record Graph =
  nodes :: "(jstring \<times> jstring) list"
  edges :: "(jstring \<times> jstring \<times> jstring) list"

text \<open>The optional label \<open>(?:\[([^\]]+)\])?\<close> at the head of the text: the capture
  (\<open>None\<close> when the group does not take part) and the characters consumed.\<close>

definition optLabel :: "jstring \<Rightarrow> jstring option \<times> nat" where
  "optLabel s =
     (case s of
        [] \<Rightarrow> (None, 0)
      | c # r \<Rightarrow>
          (let label = takeWhile (\<lambda>x. x \<noteq> 93) r
           in if c = 91 \<and> label \<noteq> [] \<and> startsWith (drop (length label) r) [93]
              then (Some label, length label + 2) else (None, 0)))"

text \<open>The edge expression \<open>(\w+)(?:\[([^\]]+)\])?\s*-->\s*(\w+)(?:\[([^\]]+)\])?\<close> and
  the node expression \<open>(\w+)\[([^\]]+)\]\<close>, matched at the head of the text.\<close>

definition edgeAt :: "jstring \<Rightarrow> (jstring \<times> jstring option \<times> jstring \<times> jstring option) option" where
  "edgeAt s =
     (let fromId = takeWhile isWord s;
          r1 = drop (length fromId) s;
          fromLabel = fst (optLabel r1);
          r2 = dropWhile isSpace (drop (snd (optLabel r1)) r1);
          r3 = dropWhile isSpace (drop 3 r2);
          toId = takeWhile isWord r3;
          toLabel = fst (optLabel (drop (length toId) r3))
      in if fromId \<noteq> [] \<and> startsWith r2 (str ''-->'') \<and> toId \<noteq> []
         then Some (fromId, fromLabel, toId, toLabel) else None)"

definition nodeAt :: "jstring \<Rightarrow> (jstring \<times> jstring) option" where
  "nodeAt s =
     (let ident = takeWhile isWord s
      in case fst (optLabel (drop (length ident) s)) of
           Some label \<Rightarrow> if ident \<noteq> [] then Some (ident, label) else None
         | None \<Rightarrow> None)"

text \<open>\<open>if (fromLabel)\<close>: a capture is truthy when it took part and is not empty.\<close>

definition truthy :: "jstring option \<Rightarrow> bool" where
  "truthy x \<longleftrightarrow> (case x of Some l \<Rightarrow> l \<noteq> [] | None \<Rightarrow> False)"

definition registerEdge :: "jstring \<times> jstring option \<times> jstring \<times> jstring option \<Rightarrow> Graph \<Rightarrow> Graph" where
  "registerEdge e g =
     (case e of (fromId, fromLabel, toId, toLabel) \<Rightarrow>
        (let n1 = (if truthy fromLabel then mapSet fromId (the fromLabel) (nodes g) else nodes g);
             n2 = (if truthy toLabel then mapSet toId (the toLabel) n1 else n1);
             n3 = (if \<not> mapHas n2 fromId then mapSet fromId fromId n2 else n2);
             n4 = (if \<not> mapHas n3 toId then mapSet toId toId n3 else n3)
         in \<lparr>nodes = n4, edges = edges g @ [(fromId, toId, [])]\<rparr>))"

definition graphLine :: "jstring \<Rightarrow> Graph \<Rightarrow> Graph" where
  "graphLine ln g =
     (case firstMatch edgeAt ln of
        Some e \<Rightarrow> registerEdge e g
      | None \<Rightarrow>
          (case firstMatch nodeAt ln of
             Some (ident, label) \<Rightarrow> g\<lparr>nodes := mapSet ident label (nodes g)\<rparr>
           | None \<Rightarrow> g))"

fun graphLines :: "jstring list \<Rightarrow> Graph \<Rightarrow> Graph" where
  "graphLines [] g = g"
| "graphLines (ln # lns) g = graphLines lns (graphLine ln g)"

fun placeNodes :: "jstring \<Rightarrow> jstring \<Rightarrow> (jstring \<times> jstring) list \<Rightarrow> jstring" where
  "placeNodes direction prevNode [] = []"
| "placeNodes direction prevNode ((ident, label) # ns) =
     (if prevNode = []
      then str ''  '' @ bsl ''node[box] ('' @ ident @ str '') {'' @ label @ str ''};\<newline>''
      else str ''  '' @ bsl ''node[box, '' @ direction @ str ''=of '' @ prevNode @ str ''] (''
           @ ident @ str '') {'' @ label @ str ''};\<newline>'')
     @ placeNodes direction ident ns"

fun drawEdges :: "(jstring \<times> jstring \<times> jstring) list \<Rightarrow> jstring" where
  "drawEdges [] = []"
| "drawEdges ((from, to, lbl) # es) =
     str ''  '' @ bsl ''draw[->] ('' @ from @ str '') -- ('' @ to @ str '');\<newline>''
     @ drawEdges es"

definition mermaidToTikz :: "jstring \<Rightarrow> jstring" where
  "mermaidToTikz mermaid =
     (let lines = splitLines (trim mermaid);
          firstLine = (case lines of [] \<Rightarrow> [] | l # ls \<Rightarrow> trim l);
          isLR = (includesStr firstLine (str ''LR'') \<or> includesStr firstLine (str ''-->''));
          direction = (if isLR then str ''right'' else str ''below'');
          g = graphLines (drop 1 lines) \<lparr>nodes = [], edges = []\<rparr>
      in if length (nodes g) = 0
         then str ''% Could not parse mermaid diagram\<newline>''
         else bsl ''begin{tikzpicture}[node distance=2cm, auto,\<newline>''
              @ str ''  box/.style={draw, rounded corners, minimum width=2cm, minimum height=0.8cm}]\<newline>''
              @ placeNodes direction [] (nodes g) @ drawEdges (edges g)
              @ bsl ''end{tikzpicture}'')"

subsection \<open>Markdown parser\<close>

record Slide =
  title :: jstring
  content :: "jstring list"
  "notes" :: "jstring list"

record ParseState =
  slides :: "Slide list"
  meta :: "jstring \<rightharpoonup> jstring"
  currentSlide :: "Slide option"
  inFrontmatter :: bool
  inCodeBlock :: bool
  inNotes :: bool

text \<open>The frontmatter expression \<open>^(\w+):\s*(.+)$\<close> on a whole line.  The greedy
  \<open>\s*\<close> gives a character back when nothing is left for \<open>(.+)\<close>.\<close>

definition metaLine :: "jstring \<Rightarrow> (jstring \<times> jstring) option" where
  "metaLine ln =
     (let key = takeWhile isWord ln;
          r = drop (length key) ln;
          ws = takeWhile isSpace (drop 1 r);
          v = dropWhile isSpace (drop 1 r)
      in if key = [] \<or> \<not> startsWith r [58] then None
         else if v \<noteq> [] then (if list_all (\<lambda>c. \<not> isLineTerminator c) v then Some (key, v) else None)
         else if ws \<noteq> [] \<and> \<not> isLineTerminator (last ws) then Some (key, [last ws])
         else None)"

definition closeSlide :: "ParseState \<Rightarrow> Slide list" where
  "closeSlide st = (case currentSlide st of Some s \<Rightarrow> slides st @ [s] | None \<Rightarrow> slides st)"

text \<open>The body of the loop for line \<open>i\<close>; 96 is the backtick.\<close>

definition parseLine :: "nat \<Rightarrow> jstring \<Rightarrow> ParseState \<Rightarrow> ParseState" where
  "parseLine i ln st =
     (if i = 0 \<and> ln = str ''---'' then st\<lparr>inFrontmatter := True\<rparr>
      else if inFrontmatter st then
        (if ln = str ''---'' then st\<lparr>inFrontmatter := False\<rparr>
         else (case metaLine ln of
                 Some (k, v) \<Rightarrow> st\<lparr>meta := (meta st)(k \<mapsto> v)\<rparr>
               | None \<Rightarrow> st))
      else
        (let st1 = (if startsWith ln [96, 96, 96] then st\<lparr>inCodeBlock := \<not> inCodeBlock st\<rparr> else st)
         in if \<not> inCodeBlock st1 \<and> ln = str ''---''
            then st1\<lparr>slides := closeSlide st1, currentSlide := None, inNotes := False\<rparr>
            else if startsWith ln (str ''Note:'') \<or> startsWith ln (str ''Notes:'')
            then st1\<lparr>inNotes := True\<rparr>
            else if \<not> inCodeBlock st1 \<and> startsWith ln (str ''## '')
            then st1\<lparr>slides := closeSlide st1,
                     currentSlide := Some \<lparr>title = trim (drop 3 ln), content = [], notes = []\<rparr>,
                     inNotes := False\<rparr>
            else if \<not> inCodeBlock st1 \<and> startsWith ln (str ''# '') \<and> \<not> startsWith ln (str ''## '')
            then st1\<lparr>meta := (meta st1)(str ''title'' \<mapsto>
                       (case meta st1 (str ''title'') of Some t \<Rightarrow> t | None \<Rightarrow> trim (drop 2 ln)))\<rparr>
            else (case currentSlide st1 of
                    None \<Rightarrow> st1
                  | Some s \<Rightarrow>
                      if inNotes st1 then st1\<lparr>currentSlide := Some (s\<lparr>notes := notes s @ [ln]\<rparr>)\<rparr>
                      else st1\<lparr>currentSlide := Some (s\<lparr>content := content s @ [ln]\<rparr>)\<rparr>)))"

fun parseLoop :: "nat \<Rightarrow> jstring list \<Rightarrow> ParseState \<Rightarrow> ParseState" where
  "parseLoop i [] st = st"
| "parseLoop i (ln # lns) st = parseLoop (Suc i) lns (parseLine i ln st)"

definition initialState :: ParseState where
  "initialState =
     \<lparr>slides = [], meta = Map.empty, currentSlide = None,
      inFrontmatter = False, inCodeBlock = False, inNotes = False\<rparr>"

definition parseLines :: "jstring list \<Rightarrow> (jstring \<rightharpoonup> jstring) \<times> Slide list" where
  "parseLines lines = (let st = parseLoop 0 lines initialState in (meta st, closeSlide st))"

definition parseMarkdown :: "jstring \<Rightarrow> (jstring \<rightharpoonup> jstring) \<times> Slide list" where
  "parseMarkdown md = parseLines (splitLines md)"

subsection \<open>Inline formatter\<close>

text \<open>\<open>(.+?)\<close> followed by a literal: the shortest non-empty run of characters other
  than line terminators after which the literal stands.\<close>

fun lazyUntil :: "jstring \<Rightarrow> jstring \<Rightarrow> jstring \<Rightarrow> (jstring \<times> nat) option" where
  "lazyUntil closing acc [] = None"
| "lazyUntil closing acc (c # cs) =
     (if isLineTerminator c then None
      else if startsWith cs closing then Some (acc @ [c], length acc + 1 + length closing)
      else lazyUntil closing (acc @ [c]) cs)"

definition inlineSpan :: "jstring \<Rightarrow> jstring \<Rightarrow> jstring \<Rightarrow> (jstring \<times> nat) option" where
  "inlineSpan delim cmd s =
     (if startsWith s delim then
        (case lazyUntil delim [] (drop (length delim) s) of
           Some (cap, n) \<Rightarrow> Some (92 # cmd @ [123] @ cap @ [125], length delim + n)
         | None \<Rightarrow> None)
      else None)"

definition formatInlineMarkdown :: "jstring \<Rightarrow> jstring" where
  "formatInlineMarkdown t =
     globalReplace (inlineSpan [96] (str ''texttt'')) 0
       (globalReplace (inlineSpan (str ''*'') (str ''textit'')) 0
          (globalReplace (inlineSpan (str ''**'') (str ''textbf'')) 0 t))"

subsection \<open>Escaping\<close>

definition emojiMap :: "(jstring \<times> jstring) list" where
  "emojiMap =
     [([0x2705], str ''[OK]''), ([0x274C], str ''[X]''), ([0x2B50], str ''*''),
      ([0x1F525], str ''[!]''), ([0x1F4A1], str ''[i]''), ([0x26A0, 0xFE0F], str ''[!]''),
      ([0x1F4CD], str ''[>]''), ([0x1F389], []), ([0x1F419], []), ([0x2728], []),
      ([0x1F680], str ''[>]''), ([0x1F4B0], str ''[$]''), ([0x1F4E7], str ''[email]''),
      ([0x1F4C5], str ''[cal]''), ([0x1F3C6], str ''[#1]''), ([0x1F44D], str ''[+]''),
      ([0x1F44E], str ''[-]''), ([0x2764, 0xFE0F], str ''[<3]''), ([0x1F324, 0xFE0F], []),
      ([0x2600, 0xFE0F], []), ([0x26C5], []), ([0x1F534], str ''[!]''),
      ([0x1F7E1], str ''[~]''), ([0x1F7E2], str ''[OK]''), ([0x1F527], []), ([0x1F4CB], []),
      ([0x1F6D2], []), ([0x1F697], []), ([0x1F97E], []), ([0x1F332], []), ([0x1F3E0], []),
      ([0x1F468, 0x200D, 0x1F469, 0x200D, 0x1F467, 0x200D, 0x1F467], []),
      ([0x1F1FA, 0x1F1F8], str ''US''), ([0x1F1EE, 0x1F1F3], str ''IN'')]"

definition emojiRange :: "nat \<Rightarrow> bool" where
  "emojiRange c \<longleftrightarrow>
     (0x1F300 \<le> c \<and> c \<le> 0x1F9FF) \<or> (0x2600 \<le> c \<and> c \<le> 0x26FF) \<or>
     (0x2700 \<le> c \<and> c \<le> 0x27BF) \<or> (0x1F600 \<le> c \<and> c \<le> 0x1F64F) \<or>
     (0x1F680 \<le> c \<and> c \<le> 0x1F6FF) \<or> (0x1F1E0 \<le> c \<and> c \<le> 0x1F1FF)"

definition handleEmojis :: "jstring \<Rightarrow> jstring" where
  "handleEmojis t =
     filter (\<lambda>c. \<not> emojiRange c) (fold (\<lambda>(emoji, replacement) s. replaceAll emoji replacement s) emojiMap t)"

text \<open>The replacement chain of \<open>escapeLatex\<close>, innermost first.\<close>

definition escapeLatex :: "jstring \<Rightarrow> jstring" where
  "escapeLatex t =
     replaceAll (bsl ''texttt'' @ bsl ''_{'') (bsl ''texttt{'')
       (replaceAll (bsl ''textit'' @ bsl ''_{'') (bsl ''textit{'')
          (replaceAll (bsl ''textbf'' @ bsl ''_{'') (bsl ''textbf{'')
             (replaceAll (str ''^'') (bsl ''textasciicircum{}'')
                (replaceAll (str ''~'') (bsl ''textasciitilde{}'')
                   (replaceAll (str ''}'') (bsl ''}'')
                      (replaceAll (str ''{'') (bsl ''{'')
                         (replaceAll (str ''#'') (bsl ''#'')
                            (replaceAll (str ''$'') (bsl ''$'')
                               (replaceAll (str ''%'') (bsl ''%'')
                                  (replaceAll (str ''&'') (bsl ''&'')
                                     (replaceAll (str ''_'') (bsl ''_'')
                                        (replaceAll [92] (bsl ''textbackslash{}'')
                                           (handleEmojis t)))))))))))))"


section \<open>The HTML exporter (export.ts)\<close>

subsection \<open>Matchers\<close>

text \<open>
  The optional option \<open>(?:\[.*?\])?\<close> in front of a continuation \<open>cont\<close>.  After the
  opening bracket (91) the lazy \<open>.*?\<close> tries each closing bracket (93) of the same
  line in turn until the continuation matches behind it; when none does, the group is
  left out and the continuation has to match in its place.
\<close>

fun optClose :: "(jstring \<Rightarrow> ('a \<times> nat) option) \<Rightarrow> nat \<Rightarrow> jstring \<Rightarrow> ('a \<times> nat) option" where
  "optClose cont n [] = None"
| "optClose cont n (c # cs) =
     (case (if c = 93 then cont cs else None) of
        Some (a, k) \<Rightarrow> Some (a, n + 1 + k)
      | None \<Rightarrow> if isLineTerminator c then None else optClose cont (n + 1) cs)"

definition optBracket :: "(jstring \<Rightarrow> ('a \<times> nat) option) \<Rightarrow> jstring \<Rightarrow> ('a \<times> nat) option" where
  "optBracket cont s =
     (case (case s of [] \<Rightarrow> None | c # r \<Rightarrow> if c = 91 then optClose cont 1 r else None) of
        Some x \<Rightarrow> Some x
      | None \<Rightarrow> cont s)"

text \<open>\<open>([\s\S]*?)\<close> followed by a literal: everything up to its first occurrence.\<close>

definition untilLiteral :: "jstring \<Rightarrow> jstring \<Rightarrow> (jstring \<times> nat) option" where
  "untilLiteral lit s =
     (case indexOf s lit of Some k \<Rightarrow> Some (take k s, k + length lit) | None \<Rightarrow> None)"

definition wrapped :: "jstring \<Rightarrow> jstring \<Rightarrow> (jstring \<times> nat) option \<Rightarrow> (jstring \<times> nat) option" where
  "wrapped pre post r = (case r of Some (b, n) \<Rightarrow> Some (pre @ b @ post, n) | None \<Rightarrow> None)"

definition prefixed :: "jstring \<Rightarrow> (jstring \<Rightarrow> ('a \<times> nat) option) \<Rightarrow> jstring \<Rightarrow> ('a \<times> nat) option" where
  "prefixed p cont s =
     (if startsWith s p
      then (case cont (drop (length p) s) of Some (a, n) \<Rightarrow> Some (a, length p + n) | None \<Rightarrow> None)
      else None)"

definition spaces :: "jstring \<Rightarrow> (jstring \<times> nat) option" where
  "spaces s = Some ([], length (takeWhile isSpace s))"

subsection \<open>Body conversion\<close>

text \<open>\<open><li>([^<]*?)(?=<li>|<\/ul>|<\/ol>|$)\<close>: the shortest run without \<open><\<close> (60)
  behind which the next item, a list end or the end of the text stands.\<close>

fun lazyItem :: "jstring \<Rightarrow> jstring \<Rightarrow> jstring option" where
  "lazyItem acc [] = Some acc"
| "lazyItem acc (c # cs) =
     (if startsWith (c # cs) (str ''<li>'') \<or> startsWith (c # cs) (str ''</ul>'')
         \<or> startsWith (c # cs) (str ''</ol>'') then Some acc
      else if c = 60 then None
      else lazyItem (acc @ [c]) cs)"

definition closeItem :: "jstring \<Rightarrow> (jstring \<times> nat) option" where
  "closeItem s =
     (if startsWith s (str ''<li>'') then
        (case lazyItem [] (drop 4 s) of
           Some cap \<Rightarrow> Some (str ''<li>'' @ cap @ str ''</li>'', 4 + length cap)
         | None \<Rightarrow> None)
      else None)"

text \<open>\<open>\\[a-zA-Z]+\{[^}]*\}\<close> and \<open>\n\s*\n\<close>.\<close>

definition commandWithArg :: "jstring \<Rightarrow> (jstring \<times> nat) option" where
  "commandWithArg s =
     (case s of
        [] \<Rightarrow> None
      | c # r \<Rightarrow>
          (let name = takeWhile isLetter r;
               r1 = drop (length name) r;
               arg = takeWhile (\<lambda>x. x \<noteq> 125) (drop 1 r1)
           in if c = 92 \<and> name \<noteq> [] \<and> startsWith r1 [123]
                 \<and> startsWith (drop (length arg) (drop 1 r1)) [125]
              then Some ([], 1 + length name + 1 + length arg + 1) else None))"

definition blankRun :: "jstring \<Rightarrow> (jstring \<times> nat) option" where
  "blankRun s =
     (case s of
        [] \<Rightarrow> None
      | c # r \<Rightarrow>
          (let ws = takeWhile isSpace r
           in if c = 10 \<and> 10 \<in> set ws
              then Some ([10], 1 + (length ws - length (takeWhile (\<lambda>x. x \<noteq> 10) (rev ws))))
              else None))"

text \<open>The substitutions of \<open>latexToHtml\<close>, in the order of the source, one per line
  from the bottom up.\<close>

definition latexToHtml :: "jstring \<Rightarrow> jstring" where
  "latexToHtml latex =
     trim
      (globalReplace blankRun 0
      (globalReplace command 0
      (globalReplace commandWithArg 0
      (globalReplace (prefixed (bsl ''begin{tikzpicture}'')
          (\<lambda>s. wrapped (str ''<p><em>[Diagram - see PDF version]</em></p>'') []
                 (dropped (untilLiteral (bsl ''end{tikzpicture}'') s)))) 0
      (globalReplace (prefixed (bsl ''Large'') spaces) 0
      (globalReplace (prefixed (bsl ''Huge'') spaces) 0
      (replaceAll (bsl ''centering'') []
      (globalReplace (prefixed (bsl ''begin{lstlisting}'')
          (optBracket (\<lambda>s. wrapped (str ''<pre><code>'') (str ''</code></pre>'')
                              (untilLiteral (bsl ''end{lstlisting}'') s)))) 0
      (globalReplace (\<lambda>s. wrapped (str ''<em>'') (str ''</em>'') (delimited (bsl ''emph{'') 125 s)) 0
      (globalReplace (\<lambda>s. wrapped (str ''<code>'') (str ''</code>'') (delimited (bsl ''texttt{'') 125 s)) 0
      (globalReplace (\<lambda>s. wrapped (str ''<em>'') (str ''</em>'') (delimited (bsl ''textit{'') 125 s)) 0
      (globalReplace (\<lambda>s. wrapped (str ''<strong>'') (str ''</strong>'') (delimited (bsl ''textbf{'') 125 s)) 0
      (globalReplace closeItem 0
      (globalReplace (prefixed (bsl ''item'')
          (optBracket (\<lambda>s. wrapped (str ''<li>'') [] (spaces s)))) 0
      (replaceAll (bsl ''end{enumerate}'') (str ''</ol>'')
      (replaceAll (bsl ''begin{enumerate}'') (str ''<ol>'')
      (replaceAll (bsl ''end{itemize}'') (str ''</ul>'')
      (replaceAll (bsl ''begin{itemize}'') (str ''<ul>'')
      (replaceAll (str ''[fragile]'') [] latex)))))))))))))))))))"

subsection \<open>Slide extraction\<close>

record ExportSlide =
  slideTitle :: jstring
  slideContent :: jstring
  slideNotes :: "jstring option"

text \<open>
  The frame expression
  \<open>\\begin\{frame\}(?:\[.*?\])?\{([^}]*)\}([\s\S]*?)\\end\{frame\}\<close>.
  \<open>frameRest\<close> is the part behind the option: an opening brace (123), the title up to
  the first closing brace (125), the body up to the first end marker.  The result is the
  pair of captures and the length of the match.
\<close>

definition frameRest :: "jstring \<Rightarrow> ((jstring \<times> jstring) \<times> nat) option" where
  "frameRest s =
     (case s of
        [] \<Rightarrow> None
      | c # r \<Rightarrow>
          (let t = takeWhile (\<lambda>x. x \<noteq> 125) r; r1 = drop (length t) r
           in if c = 123 \<and> startsWith r1 [125]
              then (case untilLiteral (bsl ''end{frame}'') (drop 1 r1) of
                      Some (body, n) \<Rightarrow> Some ((t, body), 1 + length t + 1 + n)
                    | None \<Rightarrow> None)
              else None))"

definition frameAt :: "jstring \<Rightarrow> ((jstring \<times> jstring) \<times> nat) option" where
  "frameAt s = prefixed (bsl ''begin{frame}'') (optBracket frameRest) s"

text \<open>The note expression \<open>^[\s\n]*\\note\{([\s\S]*?)\}\<close> on the text behind a frame,
  with the bold commands of the capture rewritten.\<close>

definition noteAfter :: "jstring \<Rightarrow> jstring option" where
  "noteAfter s =
     (case prefixed (bsl ''note{'') (untilLiteral [125]) (dropWhile isSpace s) of
        Some (cap, n) \<Rightarrow>
          Some (globalReplace (\<lambda>s. wrapped (str ''<strong>'') (str ''</strong>'')
                                     (delimited (bsl ''textbf{'') 125 s)) 0 cap)
      | None \<Rightarrow> None)"

definition frameSlide :: "jstring \<Rightarrow> nat \<times> (jstring \<times> jstring) \<times> nat \<Rightarrow> ExportSlide" where
  "frameSlide source m =
     (case m of (index, (t, frameContent), n) \<Rightarrow>
        \<lparr>slideTitle = t, slideContent = latexToHtml frameContent,
         slideNotes = noteAfter (drop (index + n) source)\<rparr>)"

definition frameMatches :: "jstring \<Rightarrow> (nat \<times> (jstring \<times> jstring) \<times> nat) list" where
  "frameMatches source = globalMatches frameAt 0 0 source"

definition parseLatex :: "jstring \<Rightarrow> (jstring \<rightharpoonup> jstring) \<times> ExportSlide list" where
  "parseLatex source =
     (let m1 = (case firstMatch (delimited (bsl ''title{'') 125) source of
                  Some (t, n) \<Rightarrow> Map.empty(str ''title'' \<mapsto> t) | None \<Rightarrow> Map.empty);
          m2 = (case firstMatch (delimited (bsl ''author{'') 125) source of
                  Some (a, n) \<Rightarrow> m1(str ''author'' \<mapsto> a) | None \<Rightarrow> m1)
      in (m2, map (frameSlide source) (frameMatches source)))"


section \<open>Vocabulary of the properties\<close>

subsection \<open>Markdown documents\<close>

text \<open>
  A plain content line is a line that is none of the parser's markers: no slide break,
  no fence, no note marker, no heading.  \<open>level2Headings\<close> counts the lines that start
  with the level-2 heading marker outside code fences, a fence being opened or closed
  by every line that starts with three backticks.  \<open>afterFrontmatter\<close> is the document
  behind its frontmatter block: when the first line is the delimiter, everything up to
  and including the next delimiter line is left out.
\<close>

definition plainLine :: "jstring \<Rightarrow> bool" where
  "plainLine ln \<longleftrightarrow>
     ln \<noteq> str ''---'' \<and> \<not> startsWith ln [96, 96, 96] \<and> \<not> startsWith ln (str ''Note:'')
     \<and> \<not> startsWith ln (str ''Notes:'') \<and> \<not> startsWith ln (str ''## '')
     \<and> \<not> startsWith ln (str ''# '')"

fun level2Headings :: "bool \<Rightarrow> jstring list \<Rightarrow> nat" where
  "level2Headings inFence [] = 0"
| "level2Headings inFence (ln # lns) =
     (let f = (if startsWith ln [96, 96, 96] then \<not> inFence else inFence)
      in (if \<not> f \<and> startsWith ln (str ''## '') then 1 else 0) + level2Headings f lns)"

definition afterFrontmatter :: "jstring list \<Rightarrow> jstring list" where
  "afterFrontmatter lines =
     (case lines of
        [] \<Rightarrow> []
      | ln # lns \<Rightarrow> if ln = str ''---'' then drop 1 (dropWhile (\<lambda>l. l \<noteq> str ''---'') lns) else lines)"


subsection \<open>Diagram graphs\<close>

text \<open>
  The label an endpoint of an edge line has after the line: the explicit label of the
  line when it has one (the target's when source and target are the same id and both are
  labelled), otherwise the label recorded for the id before the line, otherwise the id.
\<close>

definition defaultLabel :: "(jstring \<times> jstring) list \<Rightarrow> jstring \<Rightarrow> jstring" where
  "defaultLabel m k = (case map_of m k of Some l \<Rightarrow> l | None \<Rightarrow> k)"

definition expectedLabel ::
  "(jstring \<times> jstring) list \<Rightarrow> jstring \<times> jstring option \<times> jstring \<times> jstring option \<Rightarrow> jstring \<Rightarrow> jstring" where
  "expectedLabel m e k =
     (case e of (fromId, fromLabel, toId, toLabel) \<Rightarrow>
        if k = toId \<and> truthy toLabel then the toLabel
        else if k = fromId \<and> truthy fromLabel then the fromLabel
        else defaultLabel m k)"


subsection \<open>Frames\<close>


definition bareFrame :: "jstring \<Rightarrow> bool" where
  "bareFrame s \<longleftrightarrow>
     startsWith s (bsl ''begin{frame}'')
     \<and> 123 \<notin> set (takeWhile (\<lambda>c. \<not> isLineTerminator c) (drop 13 s))"


subsection \<open>Brace structure\<close>

text \<open>
  The braces of a text as tokens, each the 1-based number of its line and the brace
  (123 opens, 125 closes); a line counts up to its first percent sign (37), the rest is
  comment.  One step of \<open>cancel\<close> removes an opening brace and the closing brace right
  behind it, a matched pair.  When no step is left the tokens are the unmatched closing
  braces followed by the unmatched opening braces.  \<open>scanTokens\<close> is the counter of the
  brace rule run over tokens.
\<close>

fun braceTokens :: "nat \<Rightarrow> jstring list \<Rightarrow> (nat \<times> nat) list" where
  "braceTokens idx [] = []"
| "braceTokens idx (ln # lns) =
     map (\<lambda>c. (idx + 1, c)) (filter (\<lambda>c. c = 123 \<or> c = 125) (takeWhile (\<lambda>c. c \<noteq> 37) ln))
     @ braceTokens (Suc idx) lns"

inductive cancel :: "(nat \<times> nat) list \<Rightarrow> (nat \<times> nat) list \<Rightarrow> bool" where
  pair: "cancel (xs @ (i, 123) # (j, 125) # ys) (xs @ ys)"

fun scanTokens :: "(nat \<times> nat) list \<Rightarrow> int \<times> LintIssue list \<Rightarrow> int \<times> LintIssue list" where
  "scanTokens [] st = st"
| "scanTokens ((n, ch) # ts) (braceCount, issues) =
     (let c2 = (if ch = 123 then braceCount + 1 else braceCount - 1)
      in if c2 < 0 then scanTokens ts (0, issues @ [unmatchedClosing n])
         else scanTokens ts (c2, issues))"

subsection \<open>File systems\<close>

text \<open>A working directory without any file, and one that holds the single file \<open>name\<close>
  with the content \<open>src\<close>.\<close>

definition noFiles :: FileSystem where
  "noFiles = \<lparr>existsSync = (\<lambda>f. False), readdirSync = [], cwdBase = str ''talk'',
              readFileSync = (\<lambda>f. None)\<rparr>"

definition oneFile :: "jstring \<Rightarrow> jstring \<Rightarrow> FileSystem" where
  "oneFile name src = \<lparr>existsSync = (\<lambda>f. f = name), readdirSync = [name], cwdBase = str ''talk'',
              readFileSync = (\<lambda>f. if f = name then Some src else None)\<rparr>"


section \<open>Properties\<close>

lemmas text_defs = startsWith_def trim_def isSpace_def isLineTerminator_def isLetter_def isWord_def
  splitLines_def replaceAll_def literal_def

subsection \<open>Inclusion\<close>

lemma includesStr_subset: "includesStr s p \<Longrightarrow> set p \<subseteq> set s"
proof (induction s)
  case Nil
  then show ?case by simp
next
  case (Cons c cs)
  show ?case
  proof (cases "startsWith (c # cs) p")
    case True
    then have "p = take (length p) (c # cs)" by (simp add: startsWith_def)
    then have "set p \<subseteq> set (c # cs)" by (metis set_take_subset)
    then show ?thesis .
  next
    case False
    with Cons show ?thesis by auto
  qed
qed

lemma includesStr_member: "c \<in> set s \<Longrightarrow> includesStr s [c]"
  by (induction s) (auto simp: startsWith_def)

subsection \<open>Escaping and inline formatting\<close>

text \<open>
  C1.  The inline formatter turns the escaped text \<open>**a**\<close> into \<open>\textbf{a}\<close>, a text
  made of an injected command only.  \<open>escapeLatex\<close> does not leave it unchanged: the
  backslash and both braces of the command are escaped again, and the three substitutions
  that should undo this never apply, so the result has grown and grows again on a second
  application.
\<close>

theorem escapeLatex_mangles_injected_command:
  "formatInlineMarkdown (escapeLatex (str ''**a**'')) = bsl ''textbf{a}'' \<and>
   escapeLatex (formatInlineMarkdown (escapeLatex (str ''**a**''))) =
     bsl ''textbackslash'' @ bsl ''{'' @ bsl ''}textbf'' @ bsl ''{a'' @ bsl ''}'' \<and>
   escapeLatex (escapeLatex (bsl ''textbf{a}'')) \<noteq> escapeLatex (bsl ''textbf{a}'')"
  by (simp add: formatInlineMarkdown_def escapeLatex_def handleEmojis_def emojiMap_def
      emojiRange_def inlineSpan_def text_defs)

subsection \<open>Frame without title\<close>

text \<open>The rule asks for a line that includes the begin-frame marker and includes no
  opening brace; the marker itself has one, so the rule reports nothing on any input.\<close>

lemma frameLines_empty: "frameLines lines idx lns = []"
proof (induction lns arbitrary: idx)
  case Nil
  show ?case by simp
next
  case (Cons ln lns)
  have "includesStr ln [123]" if "includesStr ln (bsl ''begin{frame}'')"
  proof -
    from that have "set (bsl ''begin{frame}'') \<subseteq> set ln" by (rule includesStr_subset)
    then have "123 \<in> set ln" by simp
    then show ?thesis by (rule includesStr_member)
  qed
  with Cons show ?case by auto
qed

text \<open>
  C3.  On the three lines \<open>\begin{frame}\<close>, \<open>  Hello\<close>, \<open>\end{frame}\<close> (a bare frame
  marker, no option, no title, the next line neither a frame title nor a title page)
  the rule returns no issue: the warning the claim expects at line 1 is missing.
\<close>

theorem frameWithoutTitle_misses_bare_frame:
  "frameWithoutTitle (bsl ''begin{frame}\<newline>  Hello\<newline>'' @ bsl ''end{frame}'')
      (splitLines (bsl ''begin{frame}\<newline>  Hello\<newline>'' @ bsl ''end{frame}'')) = []"
  by (simp add: frameWithoutTitle_def text_defs)

subsection \<open>Markdown parser\<close>

text \<open>
  C4.  For the slide \<open>## Slide\<close> with the content line \<open>Hello\<close> followed by the line
  \<open>Notes: remember X\<close>, the parser returns one slide whose content is \<open>Hello\<close> and whose
  notes are empty: the text behind the marker is dropped with the marker line.
\<close>

theorem parseMarkdown_drops_text_of_notes_line:
  "snd (parseMarkdown (str ''## Slide\<newline>Hello\<newline>Notes: remember X'')) =
     [\<lparr>title = str ''Slide'', content = [str ''Hello''], notes = []\<rparr>]"
  by (simp add: parseMarkdown_def parseLines_def parseLine_def initialState_def
      closeSlide_def text_defs)

text \<open>
  C6.  A slide with a fenced code block whose first line is \<open>Note: x\<close>: the line inside
  the fence switches the slide into notes mode, is itself dropped, and the rest of the
  code block (\<open>code\<close> and the closing fence) lands in the notes instead of the content.
\<close>

theorem parseMarkdown_note_inside_fence:
  "snd (parseMarkdown (str ''## S\<newline>'' @ [96, 96, 96] @ str ''\<newline>Note: x\<newline>code\<newline>''
         @ [96, 96, 96])) =
     [\<lparr>title = str ''S'', content = [[96, 96, 96]], notes = [str ''code'', [96, 96, 96]]\<rparr>]"
  by (simp add: parseMarkdown_def parseLines_def parseLine_def initialState_def
      closeSlide_def text_defs)

subsection \<open>Exit contract of the linter\<close>

lemmas lint_defs = lintIssues_def optional_def missingDocumentClass_def missingBeginDocument_def
  missingEndDocument_def unmatchedBraces_def activePart_def unmatchedEnvironments_def envNames_def
  envMarker_def frameWithoutTitle_def frameLines_empty underscoreInText_def stripped_def
  delimited_def dropped_def command_def unmatchedClosing_def unclosedBraces_def withoutBegin_def
  mismatched_def neverClosed_def underscoreIssue_def

lemma errors_nonempty:
  "filter (\<lambda>i. severity i = Error) (xs :: LintIssue list) \<noteq> []
     \<longleftrightarrow> (\<exists>i \<in> set xs. severity i = Error)"
  by (simp add: filter_empty_conv)

lemma errors_empty:
  "filter (\<lambda>i. severity i = Error) (xs :: LintIssue list) = []
     \<longleftrightarrow> (\<forall>i \<in> set xs. severity i = Warning)"
proof -
  have sev: "severity i = Warning \<longleftrightarrow> severity i \<noteq> Error" for i :: LintIssue
    by (cases "severity i") simp_all
  show ?thesis by (simp add: filter_empty_conv sev)
qed

text \<open>
  The claim C8 as stated fails in its only-if half: \<open>findTexFile\<close> ends the run with
  \<open>process.exit(1)\<close> when the named file does not exist, and when no file is named and
  the working directory holds no \<open>.tex\<close> file.  No rule has run by then and no issue has
  been produced.
\<close>

theorem lint_missing_file_counterexample:
  "ending (lint noFiles (Some (str ''a.tex''))) = Exits 1
   \<and> produced (lint noFiles (Some (str ''a.tex''))) = []
   \<and> ending (lint noFiles None) = Exits 1 \<and> produced (lint noFiles None) = []"
  by (simp add: lint_def findTexFile_def noFiles_def)

text \<open>
  C8 (amended).  For a run that finds its file and reads it, the lint command signals
  failure (\<open>process.exit(1)\<close>) if and only if at least one issue of error severity was
  produced for the content of the file, and it returns if and only if every issue
  produced is a warning: any number of warnings alone never signals failure.  A run whose
  named file does not exist, or that finds no \<open>.tex\<close> file, signals failure with no issue
  produced.  Over all runs, failure is signalled exactly when the file is not found or
  an issue of error severity was produced.
\<close>

theorem lint_exit_contract:
  "(findTexFile fs file = Inr texFile \<and> readFileSync fs texFile = Some src \<longrightarrow>
      produced (lint fs file) = lintIssues src
      \<and> (ending (lint fs file) = Exits 1 \<longleftrightarrow> (\<exists>i \<in> set (lintIssues src). severity i = Error))
      \<and> (ending (lint fs file) = Returns \<longleftrightarrow> (\<forall>i \<in> set (lintIssues src). severity i = Warning)))
   \<and> (findTexFile fs file = Inl failure \<longrightarrow>
      ending (lint fs file) = Exits 1 \<and> produced (lint fs file) = [])
   \<and> (ending (lint fs file) = Exits 1 \<longleftrightarrow>
        (\<exists>failure. findTexFile fs file = Inl failure)
        \<or> (\<exists>i \<in> set (produced (lint fs file)). severity i = Error))"
proof -
  have found: "produced (lint fs file) = lintIssues src
      \<and> (ending (lint fs file) = Exits 1 \<longleftrightarrow> (\<exists>i \<in> set (lintIssues src). severity i = Error))
      \<and> (ending (lint fs file) = Returns \<longleftrightarrow> (\<forall>i \<in> set (lintIssues src). severity i = Warning))"
    if "findTexFile fs file = Inr texFile" "readFileSync fs texFile = Some src"
  proof -
    let ?errors = "filter (\<lambda>i. severity i = Error) (lintIssues src)"
    have p: "produced (lint fs file) = lintIssues src"
      and e: "ending (lint fs file) = (if ?errors \<noteq> [] then Exits 1 else Returns)"
      using that by (simp_all add: lint_def Let_def)
    show ?thesis
      unfolding p e errors_nonempty [symmetric] errors_empty [symmetric] by simp
  qed
  have missing: "ending (lint fs file) = Exits 1 \<and> produced (lint fs file) = []"
    if "findTexFile fs file = Inl failure"
    using that by (simp add: lint_def)
  have all: "ending (lint fs file) = Exits 1 \<longleftrightarrow>
        (\<exists>failure. findTexFile fs file = Inl failure)
        \<or> (\<exists>i \<in> set (produced (lint fs file)). severity i = Error)"
  proof (cases "findTexFile fs file")
    case (Inl a)
    then show ?thesis by (simp add: lint_def)
  next
    case (Inr f)
    then show ?thesis
      by (cases "readFileSync fs f") (simp_all add: lint_def Let_def errors_nonempty)
  qed
  from found missing all show ?thesis by blast
qed

text \<open>A stray closing brace in the only file of the directory is an error and makes the
  command fail; a complete document whose only finding is an unescaped underscore (a
  warning) lets it return; an empty directory makes it fail before any rule runs.\<close>

theorem lint_exit_contract_witness:
  "findTexFile (oneFile (str ''a.tex'') (str ''}'')) None = Inr (str ''a.tex'')
   \<and> unmatchedClosing 1 \<in> set (lintIssues (str ''}''))
   \<and> ending (lint (oneFile (str ''a.tex'') (str ''}'')) None) = Exits 1
   \<and> lintIssues (bsl ''documentclass{beamer}\<newline>'' @ bsl ''begin{document}\<newline>a_b\<newline>''
        @ bsl ''end{document}'') = [underscoreIssue 3]
   \<and> ending (lint (oneFile (str ''a.tex'') (bsl ''documentclass{beamer}\<newline>''
        @ bsl ''begin{document}\<newline>a_b\<newline>'' @ bsl ''end{document}'')) (Some (str ''a.tex''))) = Returns
   \<and> findTexFile noFiles None = Inl (str ''Error: No .tex files found'')
   \<and> ending (lint noFiles None) = Exits 1"
proof -
  let ?bad = "str ''}''"
  let ?good = "bsl ''documentclass{beamer}\<newline>'' @ bsl ''begin{document}\<newline>a_b\<newline>''
        @ bsl ''end{document}''"
  have f1: "findTexFile (oneFile (str ''a.tex'') ?bad) None = Inr (str ''a.tex'')"
    by (simp add: findTexFile_def oneFile_def endsWith_def startsWith_def)
  have r1: "readFileSync (oneFile (str ''a.tex'') ?bad) (str ''a.tex'') = Some ?bad"
    by (simp add: oneFile_def)
  have f2: "findTexFile (oneFile (str ''a.tex'') ?good) (Some (str ''a.tex'')) = Inr (str ''a.tex'')"
    by (simp add: findTexFile_def oneFile_def)
  have r2: "readFileSync (oneFile (str ''a.tex'') ?good) (str ''a.tex'') = Some ?good"
    by (simp add: oneFile_def)
  have f3: "findTexFile noFiles None = Inl (str ''Error: No .tex files found'')"
    by (simp add: findTexFile_def noFiles_def)
  have m: "unmatchedClosing 1 \<in> set (lintIssues ?bad)"
    by (simp add: lint_defs text_defs)
  then have e: "\<exists>i \<in> set (lintIssues ?bad). severity i = Error"
    by (rule bexI [rotated]) (simp add: unmatchedClosing_def)
  have w: "lintIssues ?good = [underscoreIssue 3]"
    by (simp add: lint_defs text_defs)
  have w': "\<forall>i \<in> set (lintIssues ?good). severity i = Warning"
    using w by (simp add: underscoreIssue_def)
  from lint_exit_contract [of "oneFile (str ''a.tex'') ?bad" None "str ''a.tex''" ?bad] f1 r1 e
  have 1: "ending (lint (oneFile (str ''a.tex'') ?bad) None) = Exits 1" by blast
  from lint_exit_contract [of "oneFile (str ''a.tex'') ?good" "Some (str ''a.tex'')" "str ''a.tex''" ?good]
    f2 r2 w'
  have 2: "ending (lint (oneFile (str ''a.tex'') ?good) (Some (str ''a.tex''))) = Returns" by blast
  from lint_exit_contract [of noFiles None _ _ "str ''Error: No .tex files found''"] f3
  have 3: "ending (lint noFiles None) = Exits 1" by blast
  show ?thesis
    using f1 m 1 w 2 f3 3 by simp
qed

subsection \<open>Slide breaks\<close>

lemmas parse_defs = parseMarkdown_def parseLines_def parseLine_def initialState_def closeSlide_def
  metaLine_def

lemma parseLoop_append:
  "parseLoop i (xs @ ys) st = parseLoop (i + length xs) ys (parseLoop i xs st)"
  by (induction xs arbitrary: i st) simp_all

lemma parseLine_index: "0 < i \<Longrightarrow> 0 < j \<Longrightarrow> parseLine i ln st = parseLine j ln st"
  by (simp add: parseLine_def)

lemma parseLoop_index: "0 < i \<Longrightarrow> 0 < j \<Longrightarrow> parseLoop i lns st = parseLoop j lns st"
proof (induction lns arbitrary: i j st)
  case Nil
  show ?case by simp
next
  case (Cons ln lns)
  have "parseLoop (Suc i) lns (parseLine i ln st) = parseLoop (Suc j) lns (parseLine i ln st)"
    by (rule Cons.IH) simp_all
  with Cons.prems show ?case by (simp add: parseLine_index [of i j])
qed

lemma parseLine_break:
  assumes "\<not> inFrontmatter st" "\<not> inCodeBlock st" "0 < i"
  shows "parseLine i (str ''---'') st = st\<lparr>slides := closeSlide st, currentSlide := None, inNotes := False\<rparr>"
  using assms by (simp add: parseLine_def startsWith_def closeSlide_def)

lemma parseLine_plain_closed:
  assumes "\<not> inFrontmatter st" "\<not> inCodeBlock st" "currentSlide st = None" "0 < i" "plainLine ln"
  shows "parseLine i ln st = st"
  using assms by (simp add: parseLine_def plainLine_def)

lemma parseLoop_plain_closed:
  assumes "\<not> inFrontmatter st" "\<not> inCodeBlock st" "currentSlide st = None" "0 < i"
    "list_all plainLine plain"
  shows "parseLoop i plain st = st"
  using assms
proof (induction plain arbitrary: i)
  case Nil
  show ?case by simp
next
  case (Cons ln plain)
  then have "parseLine i ln st = st" by (simp add: parseLine_plain_closed)
  with Cons show ?case by simp
qed

text \<open>
  The claim C5 as stated fails: in the document \<open>## A\<close>, \<open>a\<close>, \<open>---\<close>, \<open>lost\<close>, \<open>## B\<close>,
  \<open>b\<close> the line \<open>lost\<close> between the slide break and the next heading is in no slide,
  and no slide is created for it.
\<close>

theorem slide_break_counterexample:
  "snd (parseMarkdown (str ''## A\<newline>a\<newline>---\<newline>lost\<newline>## B\<newline>b'')) =
     [\<lparr>title = str ''A'', content = [str ''a''], notes = []\<rparr>,
      \<lparr>title = str ''B'', content = [str ''b''], notes = []\<rparr>]"
  by (simp add: parse_defs text_defs)

text \<open>
  C5 (amended).  Outside the frontmatter and outside code blocks, a line that is exactly
  the slide-break delimiter closes the current slide (if one is open) and leaves no slide
  open; the plain content lines that follow it, up to the next marker line, are
  discarded: the parser is in the same state after them as right after the break, so
  the document parses as if they were not there.
\<close>

theorem slide_break_discards_plain_lines:
  assumes "\<not> inFrontmatter st" and "\<not> inCodeBlock st" and "0 < i" and "list_all plainLine plain"
  shows "parseLoop i (str ''---'' # plain) st
           = st\<lparr>slides := closeSlide st, currentSlide := None, inNotes := False\<rparr>
         \<and> parseLoop i (str ''---'' # plain @ rest) st = parseLoop i (str ''---'' # rest) st"
proof -
  let ?st = "st\<lparr>slides := closeSlide st, currentSlide := None, inNotes := False\<rparr>"
  have brk: "parseLine i (str ''---'') st = ?st"
    using assms(1-3) by (rule parseLine_break)
  have plain: "parseLoop (Suc i) plain ?st = ?st"
    by (rule parseLoop_plain_closed) (use assms in simp_all)
  have 1: "parseLoop i (str ''---'' # plain) st = ?st"
    using brk plain by simp
  have "parseLoop (Suc i) (plain @ rest) ?st = parseLoop (Suc i + length plain) rest ?st"
    by (simp add: parseLoop_append plain)
  also have "\<dots> = parseLoop (Suc i) rest ?st"
    by (rule parseLoop_index) simp_all
  finally have 2: "parseLoop i (str ''---'' # plain @ rest) st = parseLoop i (str ''---'' # rest) st"
    using brk by simp
  from 1 2 show ?thesis by simp
qed

theorem slide_break_discards_plain_lines_witness:
  "parseLoop 2 (str ''---'' # [str ''lost''] @ [str ''## B'', str ''b''])
       (parseLoop 0 [str ''## A'', str ''a''] initialState)
     = parseLoop 2 (str ''---'' # [str ''## B'', str ''b''])
       (parseLoop 0 [str ''## A'', str ''a''] initialState)"
proof -
  let ?st = "parseLoop 0 [str ''## A'', str ''a''] initialState"
  have 1: "\<not> inFrontmatter ?st" and 2: "\<not> inCodeBlock ?st"
    by (simp_all add: parse_defs text_defs)
  have 3: "list_all plainLine [str ''lost'']"
    by (simp add: plainLine_def text_defs)
  have 4: "0 < (2::nat)" by simp
  from slide_break_discards_plain_lines [OF 1 2 4 3, of "[str ''## B'', str ''b'']"]
  show ?thesis by (rule conjunct2)
qed

subsection \<open>Slide count\<close>

lemma startsWith_hd: "startsWith s (c # p) \<Longrightarrow> s \<noteq> [] \<and> hd s = c"
  by (cases s) (auto simp: startsWith_def)

lemma heading_exclusive:
  assumes "startsWith ln (str ''## '')"
  shows "ln \<noteq> str ''---''" and "\<not> startsWith ln (str ''Note:'')"
    and "\<not> startsWith ln (str ''Notes:'')" and "\<not> startsWith ln [96, 96, 96]"
proof -
  from assms have h: "hd ln = 35" using startsWith_hd [of ln 35 "str ''# ''"] by simp
  show "ln \<noteq> str ''---''" using h by auto
  show "\<not> startsWith ln (str ''Note:'')"
    using h startsWith_hd [of ln 78 "str ''ote:''"] by auto
  show "\<not> startsWith ln (str ''Notes:'')"
    using h startsWith_hd [of ln 78 "str ''otes:''"] by auto
  show "\<not> startsWith ln [96, 96, 96]"
    using h startsWith_hd [of ln 96 "[96, 96]"] by auto
qed

lemma parseLine_body:
  assumes "\<not> inFrontmatter st" and "\<not> (i = 0 \<and> ln = str ''---'')"
  shows "\<not> inFrontmatter (parseLine i ln st)"
    and "inCodeBlock (parseLine i ln st)
           = (if startsWith ln [96, 96, 96] then \<not> inCodeBlock st else inCodeBlock st)"
    and "length (closeSlide (parseLine i ln st))
           = length (closeSlide st)
             + (if \<not> inCodeBlock (parseLine i ln st) \<and> startsWith ln (str ''## '') then 1 else 0)"
proof -
  show "\<not> inFrontmatter (parseLine i ln st)"
    using assms by (auto simp: parseLine_def Let_def split: option.splits)
  show "inCodeBlock (parseLine i ln st)
           = (if startsWith ln [96, 96, 96] then \<not> inCodeBlock st else inCodeBlock st)"
    using assms by (auto simp: parseLine_def Let_def split: option.splits)
  show "length (closeSlide (parseLine i ln st))
           = length (closeSlide st)
             + (if \<not> inCodeBlock (parseLine i ln st) \<and> startsWith ln (str ''## '') then 1 else 0)"
  proof (cases "startsWith ln (str ''## '')")
    case True
    note ex = heading_exclusive [OF True]
    show ?thesis
      using assms True ex by (auto simp: parseLine_def Let_def closeSlide_def split: option.splits)
  next
    case False
    show ?thesis
      using assms False by (auto simp: parseLine_def Let_def closeSlide_def split: option.splits)
  qed
qed

lemma parseLoop_body:
  assumes "\<not> inFrontmatter st" and "0 < i"
  shows "length (closeSlide (parseLoop i lns st))
           = length (closeSlide st) + level2Headings (inCodeBlock st) lns"
  using assms
proof (induction lns arbitrary: i st)
  case Nil
  show ?case by simp
next
  case (Cons ln lns)
  let ?st = "parseLine i ln st"
  have ni: "\<not> (i = 0 \<and> ln = str ''---'')" using Cons.prems by simp
  note b = parseLine_body [OF Cons.prems(1) ni]
  have "length (closeSlide (parseLoop (Suc i) lns ?st))
          = length (closeSlide ?st) + level2Headings (inCodeBlock ?st) lns"
    by (rule Cons.IH) (use b in simp_all)
  then show ?case
    using b(2,3) by (simp add: Let_def)
qed

lemma parseLine_frontmatter:
  assumes "inFrontmatter st" and "0 < i"
  shows "closeSlide (parseLine i ln st) = closeSlide st"
    and "inCodeBlock (parseLine i ln st) = inCodeBlock st"
    and "inFrontmatter (parseLine i ln st) = (ln \<noteq> str ''---'')"
  using assms by (auto simp: parseLine_def closeSlide_def split: option.splits)

lemma parseLoop_frontmatter:
  assumes "inFrontmatter st" and "0 < i"
  shows "length (closeSlide (parseLoop i lns st))
           = length (closeSlide st)
             + level2Headings (inCodeBlock st) (drop 1 (dropWhile (\<lambda>l. l \<noteq> str ''---'') lns))"
  using assms
proof (induction lns arbitrary: i st)
  case Nil
  show ?case by simp
next
  case (Cons ln lns)
  let ?st = "parseLine i ln st"
  note f = parseLine_frontmatter [OF Cons.prems, of ln]
  show ?case
  proof (cases "ln = str ''---''")
    case True
    then have "\<not> inFrontmatter ?st" using f(3) by simp
    then have "length (closeSlide (parseLoop (Suc i) lns ?st))
          = length (closeSlide ?st) + level2Headings (inCodeBlock ?st) lns"
      by (rule parseLoop_body) simp
    then show ?thesis using True f(1,2) by simp
  next
    case False
    then have "inFrontmatter ?st" using f(3) by simp
    then have "length (closeSlide (parseLoop (Suc i) lns ?st))
          = length (closeSlide ?st)
            + level2Headings (inCodeBlock ?st) (drop 1 (dropWhile (\<lambda>l. l \<noteq> str ''---'') lns))"
      by (rule Cons.IH) simp
    then show ?thesis using False f(1,2) by simp
  qed
qed

lemma parseLines_count:
  "length (snd (parseLines lines)) = level2Headings False (afterFrontmatter lines)"
proof (cases lines)
  case Nil
  then show ?thesis
    by (simp add: parseLines_def afterFrontmatter_def initialState_def closeSlide_def)
next
  case (Cons ln lns)
  define st where "st = parseLine 0 ln initialState"
  have pl: "snd (parseLines lines) = closeSlide (parseLoop (Suc 0) lns st)"
    using Cons by (simp add: parseLines_def Let_def st_def)
  have init: "\<not> inFrontmatter initialState" "inCodeBlock initialState = False"
    "closeSlide initialState = []"
    by (simp_all add: initialState_def closeSlide_def)
  show ?thesis
  proof (cases "ln = str ''---''")
    case True
    then have st: "st = initialState\<lparr>inFrontmatter := True\<rparr>"
      by (simp add: parseLine_def st_def)
    have fm: "inFrontmatter st" "inCodeBlock st = False" "closeSlide st = []"
      by (simp_all add: st initialState_def closeSlide_def)
    have af: "afterFrontmatter lines = drop 1 (dropWhile (\<lambda>l. l \<noteq> str ''---'') lns)"
      using Cons True by (simp add: afterFrontmatter_def)
    have "length (closeSlide (parseLoop (Suc 0) lns st))
          = length (closeSlide st)
            + level2Headings (inCodeBlock st) (drop 1 (dropWhile (\<lambda>l. l \<noteq> str ''---'') lns))"
      using fm(1) by (rule parseLoop_frontmatter) simp
    then show ?thesis
      unfolding pl af fm(2,3) by simp
  next
    case False
    then have ni: "\<not> (0 = (0::nat) \<and> ln = str ''---'')" by simp
    note b = parseLine_body [OF init(1) ni, folded st_def]
    have af: "afterFrontmatter lines = ln # lns"
      using Cons False by (simp add: afterFrontmatter_def)
    have "length (closeSlide (parseLoop (Suc 0) lns st))
          = length (closeSlide st) + level2Headings (inCodeBlock st) lns"
      using b(1) by (rule parseLoop_body) simp
    then show ?thesis
      unfolding pl af using b(2,3) init(2,3) by (simp add: Let_def)
  qed
qed

lemma parseLine_plain_open:
  assumes "\<not> inFrontmatter st" "\<not> inCodeBlock st" "\<not> inNotes st" "currentSlide st = Some s"
    "plainLine ln"
  shows "parseLine i ln st = st\<lparr>currentSlide := Some (s\<lparr>content := content s @ [ln]\<rparr>)\<rparr>"
  using assms by (simp add: parseLine_def plainLine_def)

lemma parseLoop_plain_open:
  assumes "\<not> inFrontmatter st" "\<not> inCodeBlock st" "\<not> inNotes st" "currentSlide st = Some s"
    "list_all plainLine body"
  shows "parseLoop i body st = st\<lparr>currentSlide := Some (s\<lparr>content := content s @ body\<rparr>)\<rparr>"
  using assms
proof (induction body arbitrary: i st s)
  case Nil
  then show ?case by simp
next
  case (Cons ln lns)
  let ?st = "st\<lparr>currentSlide := Some (s\<lparr>content := content s @ [ln]\<rparr>)\<rparr>"
  have 1: "parseLine i ln st = ?st"
    using Cons.prems by (simp add: parseLine_plain_open)
  have "parseLoop (Suc i) lns ?st
          = ?st\<lparr>currentSlide := Some ((s\<lparr>content := content s @ [ln]\<rparr>)\<lparr>content := content (s\<lparr>content := content s @ [ln]\<rparr>) @ lns\<rparr>)\<rparr>"
    using Cons.prems by (intro Cons.IH) simp_all
  with 1 show ?case by simp
qed

lemma parseLine_heading:
  assumes "\<not> inFrontmatter st" "\<not> inCodeBlock st" "startsWith h (str ''## '')"
  shows "parseLine i h st
           = st\<lparr>slides := closeSlide st,
                currentSlide := Some \<lparr>title = trim (drop 3 h), content = [], notes = []\<rparr>,
                inNotes := False\<rparr>"
  using assms heading_exclusive [OF assms(3)] by (simp add: parseLine_def)

lemma parseLoop_trailing:
  assumes "\<not> inFrontmatter st" "\<not> inCodeBlock st" "startsWith h (str ''## '')"
    "list_all plainLine body"
  shows "closeSlide (parseLoop i (h # body) st)
           = closeSlide st @ [\<lparr>title = trim (drop 3 h), content = body, notes = []\<rparr>]"
proof -
  let ?st = "st\<lparr>slides := closeSlide st,
                currentSlide := Some \<lparr>title = trim (drop 3 h), content = [], notes = []\<rparr>,
                inNotes := False\<rparr>"
  have 1: "parseLine i h st = ?st"
    using assms(1-3) by (rule parseLine_heading)
  have 2: "parseLoop (Suc i) body ?st
             = ?st\<lparr>currentSlide := Some (\<lparr>title = trim (drop 3 h), content = [], notes = []\<rparr>
                       \<lparr>content := content \<lparr>title = trim (drop 3 h), content = [], notes = []\<rparr> @ body\<rparr>)\<rparr>"
    using assms by (intro parseLoop_plain_open) simp_all
  show ?thesis
    using 1 2 by (simp add: closeSlide_def)
qed

lemma parseLines_trailing:
  assumes "\<not> inFrontmatter (parseLoop 0 pre initialState)"
    and "\<not> inCodeBlock (parseLoop 0 pre initialState)"
    and "startsWith h (str ''## '')" and "list_all plainLine body"
  shows "snd (parseLines (pre @ h # body))
           = snd (parseLines pre) @ [\<lparr>title = trim (drop 3 h), content = body, notes = []\<rparr>]"
  using parseLoop_trailing [OF assms, of "length pre"]
  by (simp add: parseLines_def parseLoop_append Let_def)

text \<open>
  C7.  For every Markdown document, \<open>parseMarkdown\<close> returns exactly as many slides as
  the document has level-2 headings outside code fences; the lines of the frontmatter
  block are metadata and none of them is a heading of the document.  The slide still open
  at the end of the input is emitted: when the document ends with a heading followed by
  plain lines only, its last slide has the title of that heading and those lines as its
  content.
\<close>

theorem parseMarkdown_slide_count:
  "length (snd (parseMarkdown md)) = level2Headings False (afterFrontmatter (splitLines md))
   \<and> (splitLines md = pre @ h # body
        \<and> \<not> inFrontmatter (parseLoop 0 pre initialState)
        \<and> \<not> inCodeBlock (parseLoop 0 pre initialState)
        \<and> startsWith h (str ''## '') \<and> list_all plainLine body
      \<longrightarrow> snd (parseMarkdown md)
            = snd (parseLines pre) @ [\<lparr>title = trim (drop 3 h), content = body, notes = []\<rparr>])"
  using parseLines_trailing [of pre h body]
  by (simp add: parseMarkdown_def parseLines_count)

text \<open>Two headings behind a frontmatter block give two slides; the second is open at
  the end of the input.\<close>

theorem parseMarkdown_slide_count_witness:
  "length (snd (parseMarkdown (str ''---\<newline>title: Demo\<newline>---\<newline>## Intro\<newline>Hello\<newline>## Next\<newline>Bye''))) = 2
   \<and> level2Headings False (afterFrontmatter (splitLines (str ''---\<newline>title: Demo\<newline>---\<newline>## Intro\<newline>Hello\<newline>## Next\<newline>Bye''))) = 2
   \<and> snd (parseMarkdown (str ''---\<newline>title: Demo\<newline>---\<newline>## Intro\<newline>Hello\<newline>## Next\<newline>Bye''))
       = [\<lparr>title = str ''Intro'', content = [str ''Hello''], notes = []\<rparr>,
          \<lparr>title = str ''Next'', content = [str ''Bye''], notes = []\<rparr>]"
proof -
  let ?md = "str ''---\<newline>title: Demo\<newline>---\<newline>## Intro\<newline>Hello\<newline>## Next\<newline>Bye''"
  let ?pre = "[str ''---'', str ''title: Demo'', str ''---'', str ''## Intro'', str ''Hello'']"
  have s: "splitLines ?md = ?pre @ str ''## Next'' # [str ''Bye'']"
    by (simp add: text_defs)
  have p: "\<not> inFrontmatter (parseLoop 0 ?pre initialState)"
    "\<not> inCodeBlock (parseLoop 0 ?pre initialState)"
    "snd (parseLines ?pre) = [\<lparr>title = str ''Intro'', content = [str ''Hello''], notes = []\<rparr>]"
    by (simp_all add: parse_defs text_defs)
  have h: "startsWith (str ''## Next'') (str ''## '')" "list_all plainLine [str ''Bye'']"
    "trim (drop 3 (str ''## Next'')) = str ''Next''"
    by (simp_all add: plainLine_def text_defs)
  have l: "level2Headings False (afterFrontmatter (splitLines ?md)) = 2"
    unfolding s by (simp add: afterFrontmatter_def text_defs)
  from parseMarkdown_slide_count [of ?md ?pre "str ''## Next''" "[str ''Bye'']"] s p h l
  show ?thesis by simp
qed

subsection \<open>Node and edge registration\<close>

lemmas graph_defs = graphLine_def edgeAt_def nodeAt_def optLabel_def registerEdge_def truthy_def
  mapHas_def Let_def

lemma map_of_mapSet: "map_of (mapSet k v m) = (map_of m)(k \<mapsto> v)"
  by (induction m) (auto simp: fun_eq_iff)

lemma keys_mapSet_old: "k \<in> fst ` set m \<Longrightarrow> map fst (mapSet k v m) = map fst m"
  by (induction m) force+

lemma keys_mapSet_new: "k \<notin> fst ` set m \<Longrightarrow> map fst (mapSet k v m) = map fst m @ [k]"
  by (induction m) force+

lemma mapHas_map_of: "mapHas m k \<longleftrightarrow> map_of m k \<noteq> None"
  by (simp add: mapHas_def map_of_eq_None_iff)

lemma registerEdge_labels:
  "map_of (nodes (registerEdge (fromId, fromLabel, toId, toLabel) g)) k =
     (if k = fromId \<or> k = toId
      then Some (expectedLabel (nodes g) (fromId, fromLabel, toId, toLabel) k)
      else map_of (nodes g) k)"
proof (cases "truthy fromLabel"; cases "truthy toLabel";
       cases "map_of (nodes g) fromId"; cases "map_of (nodes g) toId")
qed (auto simp add: registerEdge_def Let_def mapHas_map_of map_of_mapSet expectedLabel_def
      defaultLabel_def)

lemma registerEdge_edges:
  "edges (registerEdge (fromId, fromLabel, toId, toLabel) g) = edges g @ [(fromId, toId, [])]"
  by (simp add: registerEdge_def Let_def)


lemma keys_mapSet_prefix:
  "take (length m) (map fst (mapSet k v m)) = map fst m"
  by (cases "k \<in> fst ` set m") (simp_all add: keys_mapSet_old keys_mapSet_new)

lemma keys_mapSet_set: "fst ` set (mapSet k v m) = insert k (fst ` set m)"
proof -
  have "set (map fst (mapSet k v m)) = insert k (set (map fst m))"
    by (cases "k \<in> fst ` set m") (auto simp add: keys_mapSet_old keys_mapSet_new)
  then show ?thesis by simp
qed

lemma length_mapSet: "length m \<le> length (mapSet k v m)"
  by (induction m) auto

lemma prefix_step:
  assumes "take (length a) (map fst b) = map fst a" and "length a \<le> length b"
  shows "take (length a) (map fst (mapSet k v b)) = map fst a"
proof -
  have "take (length a) (map fst (mapSet k v b))
        = take (length a) (take (length b) (map fst (mapSet k v b)))"
    using assms(2) by (simp add: min_def)
  also have "\<dots> = take (length a) (map fst b)"
    by (simp only: keys_mapSet_prefix)
  finally show ?thesis using assms(1) by simp
qed

lemma registerEdge_keys:
  "take (length (nodes g)) (map fst (nodes (registerEdge (fromId, fromLabel, toId, toLabel) g)))
     = map fst (nodes g)
   \<and> set (map fst (nodes (registerEdge (fromId, fromLabel, toId, toLabel) g)))
     = set (map fst (nodes g)) \<union> {fromId, toId}"
proof -
  define n1 where "n1 = (if truthy fromLabel then mapSet fromId (the fromLabel) (nodes g) else nodes g)"
  define n2 where "n2 = (if truthy toLabel then mapSet toId (the toLabel) n1 else n1)"
  define n3 where "n3 = (if \<not> mapHas n2 fromId then mapSet fromId fromId n2 else n2)"
  define n4 where "n4 = (if \<not> mapHas n3 toId then mapSet toId toId n3 else n3)"
  have r: "nodes (registerEdge (fromId, fromLabel, toId, toLabel) g) = n4"
    by (simp add: registerEdge_def Let_def n1_def n2_def n3_def n4_def)
  have p1: "take (length (nodes g)) (map fst n1) = map fst (nodes g)" "length (nodes g) \<le> length n1"
    by (simp_all add: n1_def keys_mapSet_prefix length_mapSet)
  have p2: "take (length (nodes g)) (map fst n2) = map fst (nodes g)" "length (nodes g) \<le> length n2"
    using p1 length_mapSet [of n1 toId "the toLabel"] by (auto simp: n2_def prefix_step)
  have p3: "take (length (nodes g)) (map fst n3) = map fst (nodes g)" "length (nodes g) \<le> length n3"
    using p2 length_mapSet [of n2 fromId fromId] by (auto simp: n3_def prefix_step)
  have p4: "take (length (nodes g)) (map fst n4) = map fst (nodes g)"
    using p3 by (auto simp: n4_def prefix_step)
  have s1: "fst ` set (nodes g) \<subseteq> fst ` set n1 \<and> fst ` set n1 \<subseteq> fst ` set (nodes g) \<union> {fromId, toId}"
    unfolding n1_def keys_mapSet_set by (simp add: keys_mapSet_set) blast
  have s2: "fst ` set (nodes g) \<subseteq> fst ` set n2 \<and> fst ` set n2 \<subseteq> fst ` set (nodes g) \<union> {fromId, toId}"
    using s1 unfolding n2_def by (simp add: keys_mapSet_set) blast
  have s3: "insert fromId (fst ` set (nodes g)) \<subseteq> fst ` set n3 \<and> fst ` set n3 \<subseteq> fst ` set (nodes g) \<union> {fromId, toId}"
    using s2 unfolding n3_def by (simp add: keys_mapSet_set mapHas_def) blast
  have s4: "fst ` set n4 = fst ` set (nodes g) \<union> {fromId, toId}"
    using s3 unfolding n4_def by (simp add: keys_mapSet_set mapHas_def) blast
  show ?thesis using p4 s4 by (simp add: r)
qed

text \<open>
  The claim C9 as stated fails: registration does overwrite a recorded label.  After the
  line \<open>A[One] --> B\<close> the node \<open>A\<close> has the label \<open>One\<close>; the line \<open>A[Uno] --> C\<close>
  replaces it by \<open>Uno\<close>.
\<close>

theorem registration_overwrites_counterexample:
  "nodes (graphLines [str ''A[One] --> B''] \<lparr>nodes = [], edges = []\<rparr>)
     = [(str ''A'', str ''One''), (str ''B'', str ''B'')] \<and>
   nodes (graphLines [str ''A[One] --> B'', str ''A[Uno] --> C''] \<lparr>nodes = [], edges = []\<rparr>)
     = [(str ''A'', str ''Uno''), (str ''B'', str ''B''), (str ''C'', str ''C'')]"
  by (simp add: graph_defs text_defs)

text \<open>
  C9 (amended).  For every edge line, both endpoint ids are in the node map afterwards.
  An endpoint with an explicit label gets that label, also when a label is already
  recorded for its id; an endpoint without one keeps the label recorded for its id and
  gets its id as label when none is recorded.  No other node changes, the edge is
  appended to the edge sequence, the ids already in the map keep their positions, and
  the new ids come behind them.
\<close>

theorem graphLine_registers_edge:
  assumes "firstMatch edgeAt ln = Some (fromId, fromLabel, toId, toLabel)"
  shows "mapHas (nodes (graphLine ln g)) fromId \<and> mapHas (nodes (graphLine ln g)) toId
    \<and> map_of (nodes (graphLine ln g)) fromId
        = Some (expectedLabel (nodes g) (fromId, fromLabel, toId, toLabel) fromId)
    \<and> map_of (nodes (graphLine ln g)) toId
        = Some (expectedLabel (nodes g) (fromId, fromLabel, toId, toLabel) toId)
    \<and> (k = fromId \<or> k = toId \<or> map_of (nodes (graphLine ln g)) k = map_of (nodes g) k)
    \<and> edges (graphLine ln g) = edges g @ [(fromId, toId, [])]
    \<and> take (length (nodes g)) (map fst (nodes (graphLine ln g))) = map fst (nodes g)
    \<and> set (map fst (nodes (graphLine ln g))) = set (map fst (nodes g)) \<union> {fromId, toId}"
proof -
  let ?e = "(fromId, fromLabel, toId, toLabel)"
  have g: "graphLine ln g = registerEdge ?e g"
    using assms by (simp add: graphLine_def)
  have l: "map_of (nodes (registerEdge ?e g)) x =
     (if x = fromId \<or> x = toId then Some (expectedLabel (nodes g) ?e x) else map_of (nodes g) x)"
    for x by (rule registerEdge_labels)
  have h: "mapHas (nodes (registerEdge ?e g)) fromId" "mapHas (nodes (registerEdge ?e g)) toId"
    by (simp_all add: mapHas_map_of l)
  show ?thesis
    unfolding g using h l [of fromId] l [of toId] l [of k] registerEdge_edges [of fromId fromLabel toId toLabel g]
      registerEdge_keys [of g fromId fromLabel toId toLabel]
    by auto
qed

theorem graphLine_registers_edge_witness:
  "firstMatch edgeAt (str ''B --> C[Output]'') = Some (str ''B'', None, str ''C'', Some (str ''Output''))
   \<and> map_of (nodes (graphLine (str ''B --> C[Output]'')
          \<lparr>nodes = [(str ''A'', str ''Input''), (str ''B'', str ''Process'')],
           edges = [(str ''A'', str ''B'', [])]\<rparr>)) (str ''B'') = Some (str ''Process'')
   \<and> map_of (nodes (graphLine (str ''B --> C[Output]'')
          \<lparr>nodes = [(str ''A'', str ''Input''), (str ''B'', str ''Process'')],
           edges = [(str ''A'', str ''B'', [])]\<rparr>)) (str ''C'') = Some (str ''Output'')
   \<and> edges (graphLine (str ''B --> C[Output]'')
          \<lparr>nodes = [(str ''A'', str ''Input''), (str ''B'', str ''Process'')],
           edges = [(str ''A'', str ''B'', [])]\<rparr>)
       = [(str ''A'', str ''B'', []), (str ''B'', str ''C'', [])]"
proof -
  have h: "firstMatch edgeAt (str ''B --> C[Output]'')
             = Some (str ''B'', None, str ''C'', Some (str ''Output''))"
    by (simp add: edgeAt_def optLabel_def Let_def text_defs)
  from graphLine_registers_edge [OF h, of "\<lparr>nodes = [(str ''A'', str ''Input''), (str ''B'', str ''Process'')],
           edges = [(str ''A'', str ''B'', [])]\<rparr>" "str ''A''"]
  show ?thesis
    using h by (simp add: expectedLabel_def defaultLabel_def truthy_def)
qed

text \<open>The order of two ids that are new on the same line is not always the order in which
  they stand: explicit labels are stored before default labels, so a labelled target
  comes before an unlabelled source.\<close>

lemma labelled_target_registered_first:
  "nodes (graphLines [str ''A --> B[Two]''] \<lparr>nodes = [], edges = []\<rparr>)
     = [(str ''B'', str ''Two''), (str ''A'', str ''A'')]"
  by (simp add: graph_defs text_defs)

subsection \<open>Frame extraction of the exporter\<close>

lemmas frame_defs = frameMatches_def frameAt_def prefixed_def optBracket_def frameRest_def
  untilLiteral_def bareFrame_def Let_def
















lemma generated_boilerplate_frames_yield_no_slide:
  "snd (parseLatex
      (bsl ''begin{frame}\<newline>  '' @ bsl ''titlepage\<newline>'' @ bsl ''end{frame}\<newline>\<newline>''
       @ bsl ''begin{frame}\<newline>  '' @ bsl ''centering\<newline>  '' @ bsl ''Huge Questions?\<newline>''
       @ bsl ''end{frame}\<newline>\<newline>'' @ bsl ''end{document}\<newline>'')) = []"
  by (simp add: parseLatex_def frame_defs text_defs)

subsection \<open>Brace balance\<close>

lemma indexOf_percent:
  "(case indexOf ln [37] of Some k \<Rightarrow> take k ln | None \<Rightarrow> ln) = takeWhile (\<lambda>c. c \<noteq> 37) ln"
proof (induction ln)
  case Nil
  show ?case by simp
next
  case (Cons c cs)
  show ?case
  proof (cases "c = 37")
    case True
    then show ?thesis by (simp add: startsWith_def)
  next
    case False
    with Cons show ?thesis by (simp add: startsWith_def split: option.splits)
  qed
qed

lemma activePart_takeWhile: "activePart ln = takeWhile (\<lambda>c. c \<noteq> 37) ln"
  unfolding activePart_def by (rule indexOf_percent)

lemma scanTokens_append: "scanTokens (xs @ ys) st = scanTokens ys (scanTokens xs st)"
proof (induction xs arbitrary: st)
  case Nil
  show ?case by simp
next
  case (Cons t xs)
  obtain n ch where t: "t = (n, ch)" by (cases t)
  obtain c iss where st: "st = (c, iss)" by (cases st)
  show ?case by (simp add: t st Let_def Cons.IH)
qed

lemma scanTokens_nonneg: "0 \<le> fst st \<Longrightarrow> 0 \<le> fst (scanTokens ts st)"
proof (induction ts arbitrary: st)
  case Nil
  then show ?case by simp
next
  case (Cons t ts)
  obtain n ch where t: "t = (n, ch)" by (cases t)
  obtain c iss where st: "st = (c, iss)" by (cases st)
  show ?case using Cons.prems by (auto simp add: t st Let_def intro!: Cons.IH)
qed

lemma scanChars_tokens:
  "0 \<le> fst st \<Longrightarrow>
   scanChars idx cs st
     = scanTokens (map (\<lambda>c. (idx + 1, c)) (filter (\<lambda>c. c = 123 \<or> c = 125) cs)) st"
proof (induction cs arbitrary: st)
  case Nil
  show ?case by simp
next
  case (Cons ch cs)
  obtain c iss where st: "st = (c, iss)" by (cases st)
  from Cons.prems st have c: "0 \<le> c" by simp
  show ?case
  proof (cases "ch = 123")
    case True
    with c show ?thesis by (simp add: st Let_def Cons.IH)
  next
    case False
    show ?thesis
    proof (cases "ch = 125")
      case True
      with c show ?thesis by (simp add: st Let_def Cons.IH)
    next
      case n: False
      with False c show ?thesis by (simp add: st Let_def Cons.IH)
    qed
  qed
qed

lemma scanLines_tokens:
  "0 \<le> fst st \<Longrightarrow> scanLines idx lns st = scanTokens (braceTokens idx lns) st"
proof (induction lns arbitrary: idx st)
  case Nil
  show ?case by simp
next
  case (Cons ln lns)
  let ?ts = "map (\<lambda>c. (idx + 1, c)) (filter (\<lambda>c. c = 123 \<or> c = 125) (takeWhile (\<lambda>c. c \<noteq> 37) ln))"
  have 1: "scanChars idx (activePart ln) st = scanTokens ?ts st"
    using Cons.prems unfolding activePart_takeWhile by (rule scanChars_tokens)
  have 2: "0 \<le> fst (scanTokens ?ts st)"
    using Cons.prems by (rule scanTokens_nonneg)
  show ?case
    using Cons.IH [OF 2, of "Suc idx"] by (simp add: 1 scanTokens_append)
qed

lemma scanTokens_pair:
  assumes "0 \<le> fst st"
  shows "scanTokens ((i, 123) # (j, 125) # ys) st = scanTokens ys st"
proof -
  obtain c iss where st: "st = (c, iss)" by (cases st)
  with assms have "0 \<le> c" by simp
  then show ?thesis by (simp add: st Let_def)
qed

lemma cancel_scan:
  assumes "cancel ts ts'" and "0 \<le> fst st"
  shows "scanTokens ts st = scanTokens ts' st"
  using assms(1)
proof cases
  case (pair xs i j ys)
  have "0 \<le> fst (scanTokens xs st)" using assms(2) by (rule scanTokens_nonneg)
  then show ?thesis
    by (simp add: pair scanTokens_append scanTokens_pair)
qed

lemma cancel_star_scan:
  assumes "cancel\<^sup>*\<^sup>* ts ts'" and "0 \<le> fst st"
  shows "scanTokens ts st = scanTokens ts' st"
  using assms(1)
proof (induction rule: rtranclp_induct)
  case base
  show ?case by simp
next
  case (step y z)
  then show ?case using cancel_scan [OF step.hyps(2) assms(2)] by simp
qed

lemma scan_closes:
  "list_all (\<lambda>t. snd t = 125) cs \<Longrightarrow>
   scanTokens cs (0, iss) = (0, iss @ map (\<lambda>t. unmatchedClosing (fst t)) cs)"
proof (induction cs arbitrary: iss)
  case Nil
  show ?case by simp
next
  case (Cons t cs)
  obtain n ch where t: "t = (n, ch)" by (cases t)
  from Cons.prems t have ch: "ch = 125" and rest: "list_all (\<lambda>t. snd t = 125) cs" by simp_all
  show ?case by (simp add: t ch Let_def Cons.IH [OF rest])
qed

lemma scan_opens:
  "list_all (\<lambda>t. snd t = 123) os \<Longrightarrow> 0 \<le> c \<Longrightarrow>
   scanTokens os (c, iss) = (c + int (length os), iss)"
proof (induction os arbitrary: c)
  case Nil
  show ?case by simp
next
  case (Cons t os)
  obtain n ch where t: "t = (n, ch)" by (cases t)
  from Cons.prems t have ch: "ch = 123" and rest: "list_all (\<lambda>t. snd t = 123) os" by simp_all
  have "0 \<le> c + 1" using Cons.prems(2) by simp
  from Cons.IH [OF rest this] Cons.prems(2) show ?case by (simp add: t ch Let_def)
qed

lemma unmatchedBraces_normal_form:
  assumes "cancel\<^sup>*\<^sup>* (braceTokens 0 lines) (closes @ opens)"
    and "list_all (\<lambda>t. snd t = 125) closes" and "list_all (\<lambda>t. snd t = 123) opens"
  shows "unmatchedBraces doc lines
           = map (\<lambda>t. unmatchedClosing (fst t)) closes
             @ (if opens = [] then [] else [unclosedBraces (int (length opens)) (length lines)])"
proof -
  have "scanLines 0 lines (0, []) = scanTokens (braceTokens 0 lines) (0, [])"
    by (rule scanLines_tokens) simp
  also have "\<dots> = scanTokens (closes @ opens) (0, [])"
    using assms(1) by (rule cancel_star_scan) simp
  also have "\<dots> = scanTokens opens (0, map (\<lambda>t. unmatchedClosing (fst t)) closes)"
    using scan_closes [OF assms(2), of "[]"] by (simp add: scanTokens_append)
  also have "\<dots> = (int (length opens), map (\<lambda>t. unmatchedClosing (fst t)) closes)"
    using scan_opens [OF assms(3), of 0] by simp
  finally show ?thesis
    by (simp add: unmatchedBraces_def)
qed

lemma braceTokens_lines:
  "sorted (map fst (braceTokens idx lns))
   \<and> (\<forall>t \<in> set (braceTokens idx lns). idx < fst t \<and> fst t \<le> idx + length lns)"
proof (induction lns arbitrary: idx)
  case Nil
  show ?case by simp
next
  case (Cons ln lns)
  let ?a = "map (\<lambda>c. (idx + 1, c)) (filter (\<lambda>c. c = 123 \<or> c = 125) (takeWhile (\<lambda>c. c \<noteq> 37) ln))"
  have a: "\<forall>t \<in> set ?a. fst t = idx + 1" by auto
  then have sa: "sorted (map fst ?a)"
    by (simp add: sorted_iff_nth_mono)
  from Cons.IH [of "Suc idx"]
  have sb: "sorted (map fst (braceTokens (Suc idx) lns))"
    and b: "\<forall>t \<in> set (braceTokens (Suc idx) lns). Suc idx < fst t \<and> fst t \<le> Suc idx + length lns"
    by simp_all
  have "sorted (map fst (?a @ braceTokens (Suc idx) lns))"
    unfolding map_append sorted_append using sa sb a b by fastforce
  moreover have "\<forall>t \<in> set (?a @ braceTokens (Suc idx) lns). idx < fst t \<and> fst t \<le> idx + length (ln # lns)"
    using a b by fastforce
  ultimately show ?case by simp
qed

lemma cancel_keeps:
  assumes "cancel ts ts'"
  shows "set ts' \<subseteq> set ts" and "sorted (map fst ts) \<Longrightarrow> sorted (map fst ts')"
  using assms by (auto elim!: cancel.cases simp: sorted_append)

lemma cancel_star_keeps:
  assumes "cancel\<^sup>*\<^sup>* ts ts'"
  shows "set ts' \<subseteq> set ts \<and> (sorted (map fst ts) \<longrightarrow> sorted (map fst ts'))"
  using assms
proof (induction rule: rtranclp_induct)
  case base
  show ?case by simp
next
  case (step y z)
  with cancel_keeps [OF step.hyps(2)] show ?case by blast
qed

lemma cancel_context:
  assumes "cancel\<^sup>*\<^sup>* xs ys"
  shows "cancel\<^sup>*\<^sup>* (xs @ zs) (ys @ zs)"
  using assms
proof (induction rule: rtranclp_induct)
  case base
  show ?case by simp
next
  case (step y z)
  from step.hyps(2) have "cancel (y @ zs) (z @ zs)"
  proof cases
    case (pair us i j vs)
    have "cancel (us @ (i, 123) # (j, 125) # (vs @ zs)) (us @ (vs @ zs))"
      by (rule cancel.pair)
    then show ?thesis by (simp add: pair)
  qed
  with step.IH show ?case by (rule rtranclp.rtrancl_into_rtrancl)
qed

lemma normal_form_exists:
  assumes "list_all (\<lambda>t. snd t = 123 \<or> snd t = 125) ts"
  shows "\<exists>closes opens. cancel\<^sup>*\<^sup>* ts (closes @ opens)
           \<and> list_all (\<lambda>t. snd t = 125) closes \<and> list_all (\<lambda>t. snd t = 123) opens"
  using assms
proof (induction ts rule: rev_induct)
  case Nil
  have "cancel\<^sup>*\<^sup>* [] ([] @ []) \<and> list_all (\<lambda>t. snd t = 125) ([]::(nat \<times> nat) list)
        \<and> list_all (\<lambda>t. snd t = 123) ([]::(nat \<times> nat) list)" by simp
  then show ?case by blast
next
  case (snoc t ts)
  then obtain closes opens where
    nf: "cancel\<^sup>*\<^sup>* ts (closes @ opens)" "list_all (\<lambda>t. snd t = 125) closes"
        "list_all (\<lambda>t. snd t = 123) opens"
    by auto
  from cancel_context [OF nf(1), of "[t]"]
  have step: "cancel\<^sup>*\<^sup>* (ts @ [t]) (closes @ opens @ [t])" by simp
  obtain n ch where t: "t = (n, ch)" by (cases t)
  from snoc.prems t have ch: "ch = 123 \<or> ch = 125" by simp
  show ?case
  proof (cases "ch = 123")
    case True
    with nf(3) t have "list_all (\<lambda>t. snd t = 123) (opens @ [t])" by simp
    with step nf(2) show ?thesis by blast
  next
    case False
    with ch have c: "ch = 125" by simp
    show ?thesis
    proof (cases opens rule: rev_cases)
      case Nil
      with step have "cancel\<^sup>*\<^sup>* (ts @ [t]) ((closes @ [t]) @ [])" by simp
      moreover have "list_all (\<lambda>t. snd t = 125) (closes @ [t])" using nf(2) t c by simp
      moreover have "list_all (\<lambda>t. snd t = 123) ([]::(nat \<times> nat) list)" by simp
      ultimately show ?thesis by blast
    next
      case (snoc os lastOpen)
      obtain m co where o: "lastOpen = (m, co)" by (cases lastOpen)
      from nf(3) snoc o have co: "co = 123" and os: "list_all (\<lambda>t. snd t = 123) os" by simp_all
      have "cancel ((closes @ os) @ (m, 123) # (n, 125) # []) ((closes @ os) @ [])"
        by (rule cancel.pair)
      then have "cancel (closes @ opens @ [t]) (closes @ os)"
        by (simp add: snoc o co t c)
      with step have "cancel\<^sup>*\<^sup>* (ts @ [t]) (closes @ os)"
        by (rule rtranclp.rtrancl_into_rtrancl)
      with nf(2) os show ?thesis by blast
    qed
  qed
qed

lemma braceTokens_braces: "list_all (\<lambda>t. snd t = 123 \<or> snd t = 125) (braceTokens idx lns)"
  by (induction lns arbitrary: idx) (auto simp: list_all_iff)

lemma brace_normal_form_exists:
  "\<exists>closes opens. cancel\<^sup>*\<^sup>* (braceTokens 0 lines) (closes @ opens)
     \<and> list_all (\<lambda>t. snd t = 125) closes \<and> list_all (\<lambda>t. snd t = 123) opens"
  by (rule normal_form_exists) (rule braceTokens_braces)


text \<open>
  The claim C2 as stated fails in two places.  The unmatched-closing errors are not
  distinct: an issue carries its line, severity, message and rule, so two stray closing
  braces on one line give two equal issues.  And the two kinds of error do not exclude
  each other by the comparison of \<open>N\<close> and \<open>M\<close>: one stray closing brace before two
  unclosed opening braces (\<open>N > M\<close>) gives the unmatched-closing error and the
  \<open>2 unclosed brace(s)\<close> error.
\<close>

theorem brace_errors_counterexample:
  "unmatchedBraces (str ''}}'') (splitLines (str ''}}''))
     = [\<lparr>line = 1, severity = Error, message = str ''Unmatched closing brace }'',
         rule = str ''brace-balance''\<rparr>,
        \<lparr>line = 1, severity = Error, message = str ''Unmatched closing brace }'',
         rule = str ''brace-balance''\<rparr>]
   \<and> \<not> distinct (unmatchedBraces (str ''}}'') (splitLines (str ''}}'')))
   \<and> unmatchedBraces (str ''}\<newline>{{'') (splitLines (str ''}\<newline>{{''))
     = [\<lparr>line = 1, severity = Error, message = str ''Unmatched closing brace }'',
         rule = str ''brace-balance''\<rparr>,
        \<lparr>line = 2, severity = Error, message = str ''2 unclosed brace(s) {'',
         rule = str ''brace-balance''\<rparr>]"
  by (simp add: unmatchedBraces_def activePart_def unmatchedClosing_def unclosedBraces_def
      showNat.simps [of 2] text_defs)

text \<open>
  C2 (amended).  Let the braces of the text, each line cut at its first percent sign,
  leave \<open>M\<close> unmatched closing braces (\<open>closes\<close>) and \<open>N\<close> unmatched opening braces
  (\<open>opens\<close>) once all matched pairs are cancelled; by \<open>brace_normal_form_exists\<close> every
  text does so.  Then the brace rule reports exactly \<open>M\<close> errors
  \<open>Unmatched closing brace }\<close>, one for each unmatched closing brace at its line and in
  line order (equal when two of them share a line), followed by exactly one error
  \<open>N unclosed brace(s) {\<close> at the last line whenever \<open>N\<close> is positive, however \<open>N\<close> and \<open>M\<close>
  compare, and nothing else; the issues are sorted by line.  A closing brace that would
  drive the counter below zero pushes the error for its line and leaves the counter at
  zero.
\<close>

theorem unmatchedBraces_reports:
  assumes "cancel\<^sup>*\<^sup>* (braceTokens 0 lines) (closes @ opens)"
    and "list_all (\<lambda>t. snd t = 125) closes" and "list_all (\<lambda>t. snd t = 123) opens"
  shows "unmatchedBraces doc lines
           = map (\<lambda>t. \<lparr>line = fst t, severity = Error,
                       message = str ''Unmatched closing brace }'',
                       rule = str ''brace-balance''\<rparr>) closes
             @ (if opens = [] then []
                else [\<lparr>line = length lines, severity = Error,
                       message = showNat (length opens) @ str '' unclosed brace(s) {'',
                       rule = str ''brace-balance''\<rparr>])
         \<and> sorted (map line (unmatchedBraces doc lines))
         \<and> scanChars idx [125] (0, found)
             = (0, found @ [\<lparr>line = idx + 1, severity = Error,
                               message = str ''Unmatched closing brace }'',
                               rule = str ''brace-balance''\<rparr>])"
proof -
  note nf = unmatchedBraces_normal_form [OF assms, of doc]
  from braceTokens_lines [of 0 lines]
  have s: "sorted (map fst (braceTokens 0 lines))"
    and b: "\<forall>t \<in> set (braceTokens 0 lines). fst t \<le> length lines"
    by simp_all
  from cancel_star_keeps [OF assms(1)] s b
  have sc: "sorted (map fst (closes @ opens))"
    and bc: "\<forall>t \<in> set (closes @ opens). fst t \<le> length lines"
    by blast+
  have ln: "map line (map (\<lambda>t. unmatchedClosing (fst t)) closes) = map fst closes"
    by (simp add: unmatchedClosing_def comp_def)
  have 2: "sorted (map line (unmatchedBraces doc lines))"
    unfolding nf using sc bc
    by (auto simp: ln sorted_append unclosedBraces_def simp del: map_map)
  have 3: "scanChars idx [125] (0, found) = (0, found @ [unmatchedClosing (idx + 1)])"
    by simp
  show ?thesis
    using nf 2 3 by (simp add: unmatchedClosing_def unclosedBraces_def)
qed

text \<open>Two stray closing braces and a brace inside a comment on the first line, one
  unclosed brace on the second; and two opening braces of which the second line closes
  one.\<close>

theorem unmatchedBraces_reports_witness:
  "unmatchedBraces (str ''}} % {\<newline>{}{'') (splitLines (str ''}} % {\<newline>{}{''))
     = [\<lparr>line = 1, severity = Error, message = str ''Unmatched closing brace }'',
         rule = str ''brace-balance''\<rparr>,
        \<lparr>line = 1, severity = Error, message = str ''Unmatched closing brace }'',
         rule = str ''brace-balance''\<rparr>,
        \<lparr>line = 2, severity = Error, message = str ''1 unclosed brace(s) {'',
         rule = str ''brace-balance''\<rparr>]
   \<and> unmatchedBraces (str ''{{\<newline>}'') (splitLines (str ''{{\<newline>}''))
     = [\<lparr>line = 2, severity = Error, message = str ''1 unclosed brace(s) {'',
         rule = str ''brace-balance''\<rparr>]"
proof -
  have t1: "braceTokens 0 (splitLines (str ''}} % {\<newline>{}{''))
              = [(1, 125), (1, 125)] @ (2, 123) # (2, 125) # [(2, 123)]"
    by (simp add: text_defs)
  have c1: "cancel\<^sup>*\<^sup>* (braceTokens 0 (splitLines (str ''}} % {\<newline>{}{'')))
              ([(1, 125), (1, 125)] @ [(2, 123)])"
    unfolding t1 by (rule r_into_rtranclp) (rule cancel.pair)
  have a1: "list_all (\<lambda>t. snd t = 125) [(1::nat, 125::nat), (1, 125)]"
    and b1: "list_all (\<lambda>t. snd t = 123) [(2::nat, 123::nat)]"
    by simp_all
  have t2: "braceTokens 0 (splitLines (str ''{{\<newline>}''))
              = [(1, 123)] @ (1, 123) # (2, 125) # []"
    by (simp add: text_defs)
  have c2: "cancel\<^sup>*\<^sup>* (braceTokens 0 (splitLines (str ''{{\<newline>}''))) ([] @ [(1, 123)])"
    unfolding t2 using cancel.pair [of "[(1, 123)]" 1 2 "[]"] by (simp add: r_into_rtranclp)
  have a2: "list_all (\<lambda>t. snd t = 125) ([]::(nat \<times> nat) list)"
    and b2: "list_all (\<lambda>t. snd t = 123) [(1::nat, 123::nat)]"
    by simp_all
  from unmatchedBraces_reports [OF c1 a1 b1, of "str ''}} % {\<newline>{}{''"]
    unmatchedBraces_reports [OF c2 a2 b2, of "str ''{{\<newline>}''"]
  show ?thesis
    by (simp add: text_defs numeral_2_eq_2 showNat.simps [of 1] showNat.simps [of "Suc 0"])
qed


end
